theory Spec2Isabelle
  imports Complex_Main "HOL-Library.Word"
begin

section \<open>JavaScript strings and values\<close>

text \<open>
  A JavaScript string is a sequence of 16-bit code units. String literals of the source
  are written with \<open>js\<close>, which embeds an ASCII literal.
\<close>

type_synonym jschar = "16 word"
type_synonym jsstring = "jschar list"

definition js :: "string \<Rightarrow> jsstring" where
  "js s = map of_char s"

text \<open>
  A thrown value is an instance of \<open>Error\<close> carrying its message, or anything else. A
  settled promise is \<open>Inl\<close> of the rejection reason or \<open>Inr\<close> of the value.
\<close>

datatype thrown = ErrorObj jsstring | NonError

type_synonym 'a promise = "thrown + 'a"

text \<open>The values \<open>JSON.parse\<close> can return.\<close>

datatype json =
    JNull
  | JBool bool
  | JNum rat
  | JStr jsstring
  | JArr "json list"
  | JObj "(jsstring \<times> json) list"

text \<open>
  Reading a property of a value that is not \<open>null\<close>: \<open>None\<close> is \<open>undefined\<close>. The
  names the source reads (\<open>error\<close>, \<open>message\<close>, \<open>status\<close>, \<open>code\<close>) are no properties
  of strings, numbers, booleans or arrays. Reading a property of \<open>null\<close> is a TypeError,
  which the callers below handle before they get here.
\<close>

fun get_prop :: "json \<Rightarrow> jsstring \<Rightarrow> json option" where
  "get_prop (JObj kvs) k = map_of kvs k"
| "get_prop _ k = None"

fun truthy :: "json \<Rightarrow> bool" where
  "truthy JNull = False"
| "truthy (JBool b) = b"
| "truthy (JNum n) = (n \<noteq> 0)"
| "truthy (JStr s) = (s \<noteq> [])"
| "truthy (JArr xs) = True"
| "truthy (JObj kvs) = True"

text \<open>Truthiness of a value that is a string, \<open>null\<close> or \<open>undefined\<close>.\<close>

fun truthy_str :: "jsstring option \<Rightarrow> bool" where
  "truthy_str None = False"
| "truthy_str (Some s) = (s \<noteq> [])"

text \<open>\<open>Array.prototype.join\<close> on strings.\<close>

fun js_join :: "jsstring \<Rightarrow> jsstring list \<Rightarrow> jsstring" where
  "js_join sep [] = []"
| "js_join sep [x] = x"
| "js_join sep (x # y # ys) = x @ sep @ js_join sep (y # ys)"

text \<open>
  \<open>ToString\<close>, as \<open>new Error(v)\<close> applies it to a message that is not a string. The
  printing of numbers is a parameter.
\<close>

fun ToString :: "(rat \<Rightarrow> jsstring) \<Rightarrow> json \<Rightarrow> jsstring" where
  "ToString num JNull = js ''null''"
| "ToString num (JBool b) = (if b then js ''true'' else js ''false'')"
| "ToString num (JNum n) = num n"
| "ToString num (JStr s) = s"
| "ToString num (JArr xs) =
     js_join (js '','') (map (\<lambda>x. if x = JNull then [] else ToString num x) xs)"
| "ToString num (JObj kvs) = js ''[object Object]''"

text \<open>\<open>s.indexOf(c)\<close> for a one-character \<open>c\<close>, and \<open>s.substring(i)\<close>.\<close>

fun js_indexOf :: "jsstring \<Rightarrow> jschar \<Rightarrow> int" where
  "js_indexOf [] c = -1"
| "js_indexOf (x # xs) c =
     (if x = c then 0 else (let i = js_indexOf xs c in if i < 0 then -1 else i + 1))"

definition js_substring :: "jsstring \<Rightarrow> int \<Rightarrow> jsstring" where
  "js_substring s i = drop (nat (max 0 i)) s"

text \<open>\<open>s.split(c)\<close> for a one-character separator; the result is never empty.\<close>

fun js_split :: "jsstring \<Rightarrow> jschar \<Rightarrow> jsstring list" where
  "js_split [] sep = [[]]"
| "js_split (c # cs) sep =
     (if c = sep then [] # js_split cs sep
      else (case js_split cs sep of x # xs \<Rightarrow> (c # x) # xs | [] \<Rightarrow> [[c]]))"

text \<open>\<open>xs[i]\<close>: \<open>undefined\<close> out of range.\<close>

fun nth_opt :: "'a list \<Rightarrow> nat \<Rightarrow> 'a option" where
  "nth_opt [] i = None"
| "nth_opt (x # xs) 0 = Some x"
| "nth_opt (x # xs) (Suc i) = nth_opt xs i"

text \<open>A template literal prints \<open>undefined\<close> for a missing value.\<close>

fun interp :: "jsstring option \<Rightarrow> jsstring" where
  "interp None = js ''undefined''"
| "interp (Some s) = s"

text \<open>
  The built-ins of the JavaScript platform the source calls and does not define:
  \<open>JSON.parse\<close> (\<open>None\<close> when it throws), the printing of numbers,
  \<open>String.prototype.toUpperCase\<close>, \<open>normalize("NFD")\<close>, and the message of the
  TypeError raised on reading a property of \<open>undefined\<close>.
\<close>

record platform =
  JSON_parse :: "jsstring \<Rightarrow> json option"
  Number_toString :: "rat \<Rightarrow> jsstring"
  toUpperCase :: "jsstring \<Rightarrow> jsstring"
  normalize_NFD :: "jsstring \<Rightarrow> jsstring"
  TypeError_message :: jsstring

section \<open>The gateway: error translation\<close>

definition msg_rate_limit :: jsstring where
  "msg_rate_limit =
     js ''You've likely exceeded the request limit. Please wait a moment before trying again.''"

definition msg_server_error :: jsstring where
  "msg_server_error =
     js ''An unexpected server error occurred. This might be a temporary issue. Please try again in a few moments.''"

definition msg_unknown_api :: jsstring where
  "msg_unknown_api = js ''An unknown error occurred while communicating with the API.''"

text \<open>
  The \<open>try\<close> block of \<open>handleApiError\<close>: the new value of \<open>errorMessage\<close>, or \<open>None\<close>
  when the block throws (a SyntaxError of \<open>JSON.parse\<close>, a TypeError on \<open>null.error\<close>)
  or assigns nothing.
\<close>

definition parse_api_error :: "platform \<Rightarrow> jsstring \<Rightarrow> jsstring option" where
  "parse_api_error pf errorMessage =
     (let potentialJson = js_substring errorMessage (js_indexOf errorMessage (of_char CHR ''{'')) in
      case JSON_parse pf potentialJson of
        None \<Rightarrow> None
      | Some JNull \<Rightarrow> None
      | Some parsedError \<Rightarrow>
          (case get_prop parsedError (js ''error'') of
             None \<Rightarrow> None
           | Some err \<Rightarrow>
               if \<not> truthy err then None
               else (case get_prop err (js ''message'') of
                  None \<Rightarrow> None
                | Some m \<Rightarrow>
                    if \<not> truthy m then None
                    else if get_prop err (js ''status'') = Some (JStr (js ''RESOURCE_EXHAUSTED''))
                      then Some msg_rate_limit
                    else if get_prop err (js ''code'') = Some (JNum 500)
                         \<or> get_prop err (js ''status'') = Some (JStr (js ''UNKNOWN''))
                      then Some msg_server_error
                    else Some (ToString (Number_toString pf) m))))"

text \<open>\<open>handleApiError\<close> always rejects; its value here is the rejection reason.\<close>

definition handleApiError :: "platform \<Rightarrow> thrown \<Rightarrow> thrown" where
  "handleApiError pf error =
     (case error of
        ErrorObj message \<Rightarrow>
          ErrorObj (case parse_api_error pf message of None \<Rightarrow> message | Some m \<Rightarrow> m)
      | NonError \<Rightarrow> ErrorObj msg_unknown_api)"

section \<open>The gateway: \<open>editImage\<close>\<close>

record imagePart =
  base64 :: "jsstring option"
  mimeType :: jsstring

text \<open>A part of a request: inline data (data, MIME type) or text.\<close>

datatype part = InlineData "jsstring option" jsstring | TextPart jsstring

text \<open>
  The result of one generation unit (\<open>GeneratedContent\<close>). The source's field \<open>text\<close> is
  \<open>content_text\<close>, and the \<open>secondaryImageUrl\<close> of a result is \<open>content_secondaryImageUrl\<close>.
\<close>

record content =
  imageUrl :: "jsstring option"
  content_text :: "jsstring option"
  videoUrl :: "jsstring option"
  originalImageUrl :: "jsstring option"
  content_secondaryImageUrl :: "jsstring option"

text \<open>What the source reads of the response of \<open>ai.models.generateContent\<close>.\<close>

record response_part =
  part_text :: "jsstring option"
  part_inlineData :: "(jsstring option \<times> jsstring option) option"

record safetyRating =
  blocked :: bool
  category :: "jsstring option"

record candidate =
  content_parts :: "response_part list option"
  finishReason :: "jsstring option"
  safetyRatings :: "safetyRating list option"

record response =
  candidates :: "candidate list option"

text \<open>
  A request to the image models: \<open>ai.models.generateContent\<close> with its parts, or
  \<open>ai.models.generateImages\<close> with its prompt and aspect ratio.
\<close>

datatype request = GenerateContent "part list" | GenerateImages jsstring jsstring

text \<open>An entry of \<open>generatedImages\<close>: its \<open>image\<close> is missing, or has \<open>imageBytes\<close>.\<close>

datatype generatedImage = NoImage | Image "jsstring option"

text \<open>
  The remote service: \<open>generateContent k parts\<close> is how the request issued as the
  \<open>k\<close>-th of the session (counting from 0) settles, and \<open>settles_at k\<close> is the time at
  which it does; \<open>generateImages\<close> likewise, its value the \<open>generatedImages\<close> of the
  response.
\<close>

record remote =
  generateContent :: "nat \<Rightarrow> part list \<Rightarrow> response promise"
  settles_at :: "nat \<Rightarrow> nat"
  generateImages :: "nat \<Rightarrow> jsstring \<Rightarrow> jsstring \<Rightarrow> generatedImage list option promise"

definition masked_prompt :: "jsstring \<Rightarrow> jsstring" where
  \<open>masked_prompt prompt =
     js ''Apply the following instruction only to the masked area of the image: "'' @ prompt
       @ js ''". Preserve the unmasked area.''\<close>

definition inline_image :: "imagePart \<Rightarrow> part" where
  "inline_image img = InlineData (base64 img) (mimeType img)"

text \<open>The request parts \<open>editImage\<close> builds before it calls the service.\<close>

definition editImage_parts :: "jsstring \<Rightarrow> imagePart list \<Rightarrow> jsstring option \<Rightarrow> part list" where
  "editImage_parts prompt imageParts maskBase64 =
     (let fullPrompt = (if truthy_str maskBase64 then masked_prompt prompt else prompt);
          parts = [];
          parts = (if length imageParts > 0
                   then (case imageParts of img # rest \<Rightarrow> parts @ [inline_image img] | [] \<Rightarrow> parts)
                   else parts);
          parts = (if truthy_str maskBase64
                   then parts @ [InlineData maskBase64 (js ''image/png'')] else parts);
          parts = (if length imageParts > 1
                   then parts @ map inline_image (drop 1 imageParts) else parts)
      in parts @ [TextPart fullPrompt])"

text \<open>The loop over the response parts: the text is accumulated, the last image wins.\<close>

fun collect_parts :: "content \<Rightarrow> response_part list \<Rightarrow> content" where
  "collect_parts result [] = result"
| "collect_parts result (p # ps) =
     collect_parts
       (if truthy_str (part_text p)
        then result\<lparr>content_text :=
               Some ((if truthy_str (content_text result)
                      then interp (content_text result) @ js [CHR 0x0A] else [])
                     @ interp (part_text p))\<rparr>
        else (case part_inlineData p of
                Some (mt, d) \<Rightarrow>
                  result\<lparr>imageUrl := Some (js ''data:'' @ interp mt @ js '';base64,'' @ interp d)\<rparr>
              | None \<Rightarrow> result))
       ps"

definition first_candidate :: "response \<Rightarrow> candidate option" where
  "first_candidate r = (case candidates r of None \<Rightarrow> None | Some cs \<Rightarrow> nth_opt cs 0)"

definition msg_no_image :: jsstring where
  "msg_no_image =
     js ''The model did not return an image. It might have refused the request. Please try a different image or prompt.''"

definition msg_safety :: "candidate option \<Rightarrow> jsstring" where
  "msg_safety c =
     (let safetyRatings = (case c of None \<Rightarrow> None | Some c \<Rightarrow> safetyRatings c);
          blockedCategories =
            (case safetyRatings of
               None \<Rightarrow> None
             | Some rs \<Rightarrow>
                 Some (js_join (js '', '')
                   (map (\<lambda>r. case category r of None \<Rightarrow> [] | Some c \<Rightarrow> c) (filter blocked rs))))
      in js ''The request was blocked for safety reasons. Categories: ''
         @ (if truthy_str blockedCategories then interp blockedCategories else js ''Unknown'')
         @ js ''. Please modify your prompt or image.'')"

text \<open>
  What \<open>editImage\<close> does once the service has answered: the \<open>try\<close> block from the
  response on, and the \<open>catch\<close> that sends every failure through \<open>handleApiError\<close>.
\<close>

definition editImage_settle :: "platform \<Rightarrow> response promise \<Rightarrow> content promise" where
  "editImage_settle pf answer =
     (case answer of
        Inl error \<Rightarrow> Inl (handleApiError pf error)
      | Inr response \<Rightarrow>
          (let result = \<lparr>imageUrl = None, content_text = None, videoUrl = None,
                         originalImageUrl = None, content_secondaryImageUrl = None\<rparr>;
               responseParts =
                 (case first_candidate response of None \<Rightarrow> None | Some c \<Rightarrow> content_parts c);
               result = (case responseParts of None \<Rightarrow> result | Some ps \<Rightarrow> collect_parts result ps)
           in if \<not> truthy_str (imageUrl result)
              then (let finishReason =
                          (case first_candidate response of None \<Rightarrow> None | Some c \<Rightarrow> finishReason c);
                        errorMessage =
                          (if finishReason = Some (js ''SAFETY'')
                           then msg_safety (first_candidate response) else msg_no_image)
                    in Inl (handleApiError pf (ErrorObj errorMessage)))
              else Inr result))"

text \<open>
  A call of \<open>editImage\<close>: the request is appended to the log of requests sent, and the
  promise settles as the service answers that request.
\<close>

definition editImage ::
  "platform \<Rightarrow> remote \<Rightarrow> request list \<Rightarrow> jsstring \<Rightarrow> imagePart list \<Rightarrow> jsstring option
    \<Rightarrow> content promise \<times> request list" where
  "editImage pf rm sent prompt imageParts maskBase64 =
     (let parts = editImage_parts prompt imageParts maskBase64
      in (editImage_settle pf (generateContent rm (length sent) parts), sent @ [GenerateContent parts]))"

section \<open>The gateway: batches\<close>

text \<open>
  \<open>Promise.all\<close> over promises given with the time each settles: it rejects with the
  reason of the rejection that comes first in time (the earlier promise of the list when
  two come together), and is fulfilled with the values in the order of the list when
  none rejects.
\<close>

fun first_rejection :: "(nat \<times> 'a promise) list \<Rightarrow> (nat \<times> thrown) option" where
  "first_rejection [] = None"
| "first_rejection ((t, Inr v) # ps) = first_rejection ps"
| "first_rejection ((t, Inl e) # ps) =
     (case first_rejection ps of
        None \<Rightarrow> Some (t, e)
      | Some (t', e') \<Rightarrow> if t' < t then Some (t', e') else Some (t, e))"

fun fulfilled :: "(nat \<times> 'a promise) list \<Rightarrow> 'a list" where
  "fulfilled [] = []"
| "fulfilled ((t, Inr v) # ps) = v # fulfilled ps"
| "fulfilled ((t, Inl e) # ps) = fulfilled ps"

definition Promise_all :: "(nat \<times> 'a promise) list \<Rightarrow> 'a list promise" where
  "Promise_all ps =
     (case first_rejection ps of Some (t, e) \<Rightarrow> Inl e | None \<Rightarrow> Inr (fulfilled ps))"

text \<open>
  The loop that starts \<open>n\<close> calls of \<open>editImage\<close> with the same arguments, one after the
  other, without awaiting any: the promises with their settling times, and the log.
\<close>

fun start_edits ::
  "platform \<Rightarrow> remote \<Rightarrow> request list \<Rightarrow> jsstring \<Rightarrow> imagePart list \<Rightarrow> nat
    \<Rightarrow> (nat \<times> content promise) list \<times> request list" where
  "start_edits pf rm sent prompt imageParts 0 = ([], sent)"
| "start_edits pf rm sent prompt imageParts (Suc n) =
     (let (p, sent') = editImage pf rm sent prompt imageParts None;
          (ps, sent'') = start_edits pf rm sent' prompt imageParts n
      in ((settles_at rm (length sent), p) # ps, sent''))"

text \<open>\<open>results.map(r => r.imageUrl).filter(url => !!url)\<close>\<close>

definition truthy_urls :: "jsstring option list \<Rightarrow> jsstring list" where
  "truthy_urls urls = List.map_filter (\<lambda>u. if truthy_str u then u else None) urls"

text \<open>The \<open>catch\<close> of the two batch functions, with the function's own fallback message.\<close>

definition rethrow :: "jsstring \<Rightarrow> thrown \<Rightarrow> thrown" where
  "rethrow fallback error =
     (case error of ErrorObj message \<Rightarrow> ErrorObj message | NonError \<Rightarrow> ErrorObj fallback)"

definition generateLookbook ::
  "platform \<Rightarrow> remote \<Rightarrow> request list \<Rightarrow> jsstring \<Rightarrow> imagePart \<Rightarrow> nat
    \<Rightarrow> jsstring list promise \<times> request list" where
  "generateLookbook pf rm sent prompt imagePart numImages =
     (let (promises, sent') = start_edits pf rm sent prompt [imagePart] numImages;
          fallback = js ''An unknown error occurred during lookbook generation.''
      in case Promise_all promises of
           Inl error \<Rightarrow> (Inl (rethrow fallback error), sent')
         | Inr results \<Rightarrow>
             (let imageUrls = truthy_urls (map imageUrl results)
              in if length imageUrls = 0
                 then (Inl (rethrow fallback (ErrorObj (js
                   ''Failed to generate any images for the lookbook. The model may have refused the request.''))),
                       sent')
                 else (Inr imageUrls, sent')))"

definition generateImageEditsBatch ::
  "platform \<Rightarrow> remote \<Rightarrow> request list \<Rightarrow> jsstring \<Rightarrow> imagePart list
    \<Rightarrow> jsstring list promise \<times> request list" where
  "generateImageEditsBatch pf rm sent prompt imageParts =
     (let (promises, sent') = start_edits pf rm sent prompt imageParts 4;
          fallback = js ''An unknown error occurred during batch image generation.''
      in case Promise_all promises of
           Inl error \<Rightarrow> (Inl (rethrow fallback error), sent')
         | Inr results \<Rightarrow>
             (let imageUrls = truthy_urls (map imageUrl results)
              in if length imageUrls = 0
                 then (Inl (rethrow fallback (ErrorObj (js
                   ''Failed to generate any image variations. The model may have refused the request.''))),
                       sent')
                 else (Inr imageUrls, sent')))"

definition generateImageFromText ::
  "platform \<Rightarrow> remote \<Rightarrow> request list \<Rightarrow> jsstring \<Rightarrow> jsstring
    \<Rightarrow> content promise \<times> request list" where
  "generateImageFromText pf rm sent prompt aspectRatio =
     (let sent' = sent @ [GenerateImages prompt aspectRatio];
          noImage = js ''The model did not return an image. It might have refused the request.''
      in case generateImages rm (length sent) prompt aspectRatio of
           Inl e \<Rightarrow> (Inl (handleApiError pf e), sent')
         | Inr generatedImages \<Rightarrow>
             (case generatedImages of
                None \<Rightarrow> (Inl (handleApiError pf (ErrorObj noImage)), sent')
              | Some [] \<Rightarrow> (Inl (handleApiError pf (ErrorObj noImage)), sent')
              | Some (NoImage # rest) \<Rightarrow>
                  (Inl (handleApiError pf (ErrorObj (TypeError_message pf))), sent')
              | Some (Image base64ImageBytes # rest) \<Rightarrow>
                  (Inr \<lparr>imageUrl = Some (js ''data:image/png;base64,'' @ interp base64ImageBytes),
                        content_text = None, videoUrl = None, originalImageUrl = None,
                        content_secondaryImageUrl = None\<rparr>, sent')))"

section \<open>Strings: \<open>trim\<close> and \<open>replace\<close>\<close>

text \<open>White space and line terminators, which \<open>trim\<close> removes at both ends.\<close>

definition js_whitespace :: "jschar \<Rightarrow> bool" where
  "js_whitespace c =
     (c \<in> set [0x09, 0x0A, 0x0B, 0x0C, 0x0D, 0x20, 0xA0, 0x1680, 0x2028, 0x2029, 0x202F,
               0x205F, 0x3000, 0xFEFF]
      \<or> (0x2000 \<le> c \<and> c \<le> 0x200A))"

definition js_trim :: "jsstring \<Rightarrow> jsstring" where
  "js_trim s = rev (dropWhile js_whitespace (rev (dropWhile js_whitespace s)))"

text \<open>
  \<open>s.replace(pattern, replacement)\<close> with a string pattern: the first occurrence is
  replaced, and in the replacement \<open>$$\<close>, \<open>$&\<close>, \<open>$`\<close> and \<open>$'\<close> stand for a dollar sign,
  the match, the text before it and the text after it.
\<close>

fun find_sub :: "jsstring \<Rightarrow> jsstring \<Rightarrow> (jsstring \<times> jsstring) option" where
  "find_sub pat [] = (if pat = [] then Some ([], []) else None)"
| "find_sub pat (c # cs) =
     (if take (length pat) (c # cs) = pat then Some ([], drop (length pat) (c # cs))
      else (case find_sub pat cs of None \<Rightarrow> None | Some (b, a) \<Rightarrow> Some (c # b, a)))"

fun get_substitution :: "jsstring \<Rightarrow> jsstring \<Rightarrow> jsstring \<Rightarrow> jsstring \<Rightarrow> jsstring" where
  "get_substitution matched preceding following [] = []"
| "get_substitution matched preceding following [c] = [c]"
| "get_substitution matched preceding following (c # d # r) =
     (if c = of_char CHR ''$'' \<and> d = of_char CHR ''$''
        then of_char CHR ''$'' # get_substitution matched preceding following r
      else if c = of_char CHR ''$'' \<and> d = of_char CHR ''&''
        then matched @ get_substitution matched preceding following r
      else if c = of_char CHR ''$'' \<and> d = of_char CHR ''`''
        then preceding @ get_substitution matched preceding following r
      else if c = of_char CHR ''$'' \<and> d = of_char (CHR 0x27)
        then following @ get_substitution matched preceding following r
      else c # get_substitution matched preceding following (d # r))"

definition js_replace :: "jsstring \<Rightarrow> jsstring \<Rightarrow> jsstring \<Rightarrow> jsstring" where
  "js_replace s pat replacement =
     (case find_sub pat s of
        None \<Rightarrow> s
      | Some (preceding, following) \<Rightarrow>
          preceding @ get_substitution pat preceding following replacement @ following)"

section \<open>The application: normalisation, watermarks, display order\<close>

text \<open>
  \<open>formatBankText\<close>: upper case, NFD, the combining marks U+0300 to U+036F removed,
  and U+0110 (D with stroke) replaced by \<open>D\<close>.
\<close>

definition formatBankText :: "platform \<Rightarrow> jsstring \<Rightarrow> jsstring" where
  "formatBankText pf text =
     map (\<lambda>c. if c = 0x110 then of_char CHR ''D'' else c)
       (filter (\<lambda>c. \<not> (0x300 \<le> c \<and> c \<le> 0x36F)) (normalize_NFD pf (toUpperCase pf text)))"

text \<open>
  The collaborators of \<open>App\<close> that the repository's files under study do not define:
  the two watermark stages, the image utilities and the translation lookup \<open>t\<close>.
\<close>

record htmlImage =
  width :: nat
  height :: nat

record collaborators =
  embedWatermark :: "jsstring \<Rightarrow> jsstring \<Rightarrow> jsstring promise"
  addVisibleWatermark :: "jsstring \<Rightarrow> jsstring \<Rightarrow> jsstring promise"
  loadImage :: "jsstring \<Rightarrow> htmlImage promise"
  resizeImageToMatch :: "jsstring \<Rightarrow> htmlImage \<Rightarrow> jsstring promise"
  t :: "jsstring \<Rightarrow> jsstring"

definition studio_signature :: jsstring where
  "studio_signature =
     js ''X STUDIO - Ti'' @ [0x1EC7] @ js ''m '' @ [0x1EA3] @ js ''nh t'' @ [0x1B0, 0x1A1]
       @ js ''ng lai''"

text \<open>
  \<open>applyWatermarks\<close>: the value is the settled promise of the async function, so that
  a rejection would show as \<open>Inl\<close>.
\<close>

definition applyWatermarks :: "collaborators \<Rightarrow> jsstring option \<Rightarrow> jsstring option promise" where
  "applyWatermarks cb imageUrl' =
     (case imageUrl' of
        None \<Rightarrow> Inr None
      | Some url \<Rightarrow>
          if url = [] then Inr None
          else (case embedWatermark cb url studio_signature of
                  Inl err \<Rightarrow> Inr (Some url)
                | Inr invisiblyWatermarked \<Rightarrow>
                    (case addVisibleWatermark cb invisiblyWatermarked studio_signature of
                       Inl err \<Rightarrow> Inr (Some url)
                     | Inr visiblyWatermarked \<Rightarrow> Inr (Some visiblyWatermarked))))"

text \<open>
  A catalogue entry, with the fields the source reads. \<open>maxImages\<close> is a number or
  absent; \<open>stepTwoPrompt\<close> is read for two-step entries only, which carry one.
\<close>

record transformation =
  key :: jsstring
  prompt :: jsstring
  isMultiImage :: bool
  isSecondaryOptional :: bool
  maxImages :: "nat option"
  isTwoStep :: bool
  stepTwoPrompt :: jsstring
  isMultiStepVideo :: bool
  isVideo :: bool
  videoPrompt :: "jsstring option"

text \<open>
  The initialiser of the \<open>transformations\<close> state. \<open>savedOrder\<close> is what
  \<open>localStorage.getItem\<close> gives (\<open>Inl\<close> when it throws); every exception inside the \<open>try\<close>
  (a SyntaxError of \<open>JSON.parse\<close>, a TypeError when the parsed value has no \<open>map\<close>) ends in
  the catalogue itself. A \<open>Map\<close> built from entries keeps the last entry of a key; \<open>Map\<close>
  and \<open>Set\<close> find a string key only under an equal string.
\<close>

definition initial_transformations ::
  "platform \<Rightarrow> jsstring option promise \<Rightarrow> transformation list \<Rightarrow> transformation list" where
  "initial_transformations pf savedOrder TRANSFORMATIONS =
     (case savedOrder of
        Inl e \<Rightarrow> TRANSFORMATIONS
      | Inr saved \<Rightarrow>
          if \<not> truthy_str saved then TRANSFORMATIONS
          else (case JSON_parse pf (interp saved) of
                  Some (JArr orderedKeys) \<Rightarrow>
                    (let transformationMap = map_of (rev (map (\<lambda>tr. (key tr, tr)) TRANSFORMATIONS));
                         orderedTransformations =
                           List.map_filter
                             (\<lambda>k. case k of JStr k' \<Rightarrow> transformationMap k' | _ \<Rightarrow> None)
                             orderedKeys;
                         newTransformations =
                           filter (\<lambda>tr. JStr (key tr) \<notin> set orderedKeys) TRANSFORMATIONS
                     in orderedTransformations @ newTransformations)
                | _ \<Rightarrow> TRANSFORMATIONS))"

section \<open>The application: state and \<open>handleGenerateImage\<close>\<close>

text \<open>The state of \<open>App\<close>; a \<open>File\<close> is kept by its name.\<close>

record ui =
  selectedTransformation :: "transformation option"
  primaryImageUrl :: "jsstring option"
  primaryFile :: "jsstring option"
  secondaryImageUrl :: "jsstring option"
  secondaryFile :: "jsstring option"
  multiImageUrls :: "jsstring list"
  generatedContent :: "content option"
  isLoading :: bool
  loadingMessage :: jsstring
  error :: "jsstring option"
  maskDataUrl :: "jsstring option"
  customPrompt :: jsstring
  aspectRatio :: jsstring
  imageAspectRatio :: jsstring
  activeTool :: jsstring
  history :: "content list"
  activeCategory :: "transformation option"
  imageOptions :: "jsstring list option"
  selectedOption :: "jsstring option"
  generatedLookbookImages :: "jsstring list"
  bankName :: jsstring
  accountName :: jsstring
  accountNumber :: jsstring
  branch :: jsstring
  lookbookMode :: jsstring
  askAiPrompt :: jsstring
  lookbookDescription :: jsstring
  numImages :: nat
  lookbookAspectRatio :: jsstring
  outputQuality :: jsstring

text \<open>How a block of statements ends: it runs to its end or returns, or it throws.\<close>

datatype completion = Returned | Threw thrown

text \<open>The string behind a value already tested truthy.\<close>

fun str :: "jsstring option \<Rightarrow> jsstring" where
  "str None = []"
| "str (Some s) = s"

text \<open>
  \<open>{ base64: url.split(',')[1], mimeType: url.split(';')[0].split(':')[1] ?? 'image/png' }\<close>
\<close>

definition toImagePart :: "jsstring \<Rightarrow> imagePart" where
  "toImagePart url =
     \<lparr>base64 = nth_opt (js_split url (of_char CHR '','')) 1,
      mimeType =
        (case nth_opt (js_split (str (nth_opt (js_split url (of_char CHR '';'')) 0)) (of_char CHR '':'')) 1 of
           None \<Rightarrow> js ''image/png''
         | Some m \<Rightarrow> m)\<rparr>"

text \<open>\<open>await Promise.all(results.map(url => applyWatermarks(url)))\<close>\<close>

definition watermark_all :: "collaborators \<Rightarrow> jsstring list \<Rightarrow> jsstring option list promise" where
  "watermark_all cb urls = Promise_all (map (\<lambda>url. (0, applyWatermarks cb (Some url))) urls)"

text \<open>
  In the branches below \<open>s\<close> is the state the handler's closure reads, \<open>u\<close> the state its
  setters have written so far, and \<open>sent\<close> the log of requests.
\<close>

definition lookbook_branch ::
  "platform \<Rightarrow> remote \<Rightarrow> collaborators \<Rightarrow> ui \<Rightarrow> ui \<Rightarrow> request list
    \<Rightarrow> completion \<times> ui \<times> request list" where
  \<open>lookbook_branch pf rm cb s u sent =
     (if \<not> truthy_str (primaryImageUrl s)
      then (Returned, u\<lparr>error := Some (t cb (js ''app.error.uploadAndSelect'')), isLoading := False\<rparr>, sent)
      else if js_trim (lookbookDescription s) = []
      then (Returned, u\<lparr>error := Some (t cb (js ''app.error.enterPrompt'')), isLoading := False\<rparr>, sent)
      else
        (let imagePart = toImagePart (str (primaryImageUrl s));
             finalPrompt =
               js ''Create a fashion lookbook image based on the following description: "''
               @ lookbookDescription s
               @ js ''". The main character should resemble the person in the provided image.'';
             finalPrompt =
               (if outputQuality s = js ''high''
                then finalPrompt @ js '' Generate a high-resolution, 4K image.'' else finalPrompt);
             finalPrompt =
               (if outputQuality s = js ''ultra''
                then finalPrompt @ js '' Generate an ultra-realistic, 8K, highly detailed image.''
                else finalPrompt);
             u = u\<lparr>loadingMessage := t cb (js ''app.loading.default'')\<rparr>;
             (results, sent) = generateLookbook pf rm sent finalPrompt imagePart (numImages s)
         in case results of
              Inl e \<Rightarrow> (Threw e, u, sent)
            | Inr results \<Rightarrow>
                (case watermark_all cb results of
                   Inl e \<Rightarrow> (Threw e, u, sent)
                 | Inr watermarkedResults \<Rightarrow>
                     (Returned, u\<lparr>generatedLookbookImages := truthy_urls watermarkedResults\<rparr>, sent))))\<close>

text \<open>
  The end every single-image branch shares: the result's image is watermarked, the
  result gets its \<open>originalImageUrl\<close>, becomes the current result and is put in front of
  the history.
\<close>

definition deliver ::
  "collaborators \<Rightarrow> content \<Rightarrow> (content \<Rightarrow> content) \<Rightarrow> ui \<Rightarrow> request list
    \<Rightarrow> completion \<times> ui \<times> request list" where
  "deliver cb result finish u sent =
     (case applyWatermarks cb (imageUrl result) of
        Inl e \<Rightarrow> (Threw e, u, sent)
      | Inr watermarked \<Rightarrow>
          (let finalResult = finish (result\<lparr>imageUrl := watermarked\<rparr>)
           in (Returned, u\<lparr>generatedContent := Some finalResult, history := finalResult # history u\<rparr>,
               sent)))"

definition chibiQrCode_branch ::
  "platform \<Rightarrow> remote \<Rightarrow> collaborators \<Rightarrow> ui \<Rightarrow> transformation \<Rightarrow> ui \<Rightarrow> request list
    \<Rightarrow> completion \<times> ui \<times> request list" where
  "chibiQrCode_branch pf rm cb s tr u sent =
     (if \<not> truthy_str (primaryImageUrl s) \<or> \<not> truthy_str (secondaryImageUrl s)
         \<or> js_trim (bankName s) = [] \<or> js_trim (accountName s) = []
         \<or> js_trim (accountNumber s) = [] \<or> js_trim (branch s) = []
      then (Returned, u\<lparr>error := Some (t cb (js ''app.error.fillAllFields'')), isLoading := False\<rparr>, sent)
      else
        (let formattedBankName = formatBankText pf (bankName s);
             formattedAccountName = formatBankText pf (accountName s);
             formattedBranch = formatBankText pf (branch s);
             prompt' = prompt tr;
             prompt' =
               js_replace
                 (js_replace
                    (js_replace
                       (js_replace prompt' (js ''{{bankName}}'') formattedBankName)
                       (js ''{{accountName}}'') formattedAccountName)
                    (js ''{{accountNumber}}'') (accountNumber s))
                 (js ''{{branch}}'') formattedBranch;
             imageParts =
               [toImagePart (str (primaryImageUrl s)), toImagePart (str (secondaryImageUrl s))];
             u = u\<lparr>loadingMessage := t cb (js ''app.loading.default'')\<rparr>;
             (result, sent) = editImage pf rm sent prompt' imageParts None
         in case result of
              Inl e \<Rightarrow> (Threw e, u, sent)
            | Inr result \<Rightarrow>
                deliver cb result (\<lambda>r. r\<lparr>originalImageUrl := primaryImageUrl s\<rparr>) u sent))"

definition multiStepVideo_branch ::
  "platform \<Rightarrow> remote \<Rightarrow> collaborators \<Rightarrow> ui \<Rightarrow> jsstring \<Rightarrow> ui \<Rightarrow> request list
    \<Rightarrow> completion \<times> ui \<times> request list" where
  "multiStepVideo_branch pf rm cb s promptToUse u sent =
     (if length (multiImageUrls s) = 0
      then (Returned, u\<lparr>error := Some (t cb (js ''app.error.uploadOne'')), isLoading := False\<rparr>, sent)
      else
        (let u = u\<lparr>loadingMessage := t cb (js ''app.loading.generatingOptions'')\<rparr>;
             imageParts = map toImagePart (multiImageUrls s);
             (results, sent) = generateImageEditsBatch pf rm sent promptToUse imageParts
         in case results of
              Inl e \<Rightarrow> (Threw e, u, sent)
            | Inr results \<Rightarrow>
                (case watermark_all cb results of
                   Inl e \<Rightarrow> (Threw e, u, sent)
                 | Inr watermarkedResults \<Rightarrow>
                     (Returned,
                      u\<lparr>imageOptions := Some (truthy_urls watermarkedResults), selectedOption := None\<rparr>,
                      sent))))"

definition textToImage_branch ::
  "platform \<Rightarrow> remote \<Rightarrow> collaborators \<Rightarrow> ui \<Rightarrow> jsstring \<Rightarrow> ui \<Rightarrow> request list
    \<Rightarrow> completion \<times> ui \<times> request list" where
  "textToImage_branch pf rm cb s promptToUse u sent =
     (let (result, sent) = generateImageFromText pf rm sent promptToUse (imageAspectRatio s)
      in case result of
           Inl e \<Rightarrow> (Threw e, u, sent)
         | Inr result \<Rightarrow> deliver cb result (\<lambda>r. r) u sent)"

definition maxImages_branch ::
  "platform \<Rightarrow> remote \<Rightarrow> collaborators \<Rightarrow> ui \<Rightarrow> jsstring \<Rightarrow> ui \<Rightarrow> request list
    \<Rightarrow> completion \<times> ui \<times> request list" where
  "maxImages_branch pf rm cb s promptToUse u sent =
     (if length (multiImageUrls s) = 0
      then (Returned, u\<lparr>error := Some (t cb (js ''app.error.uploadOne'')), isLoading := False\<rparr>, sent)
      else
        (let imageParts = map toImagePart (multiImageUrls s);
             (result, sent) = editImage pf rm sent promptToUse imageParts None
         in case result of
              Inl e \<Rightarrow> (Threw e, u, sent)
            | Inr result \<Rightarrow>
                deliver cb result (\<lambda>r. r\<lparr>originalImageUrl := nth_opt (multiImageUrls s) 0\<rparr>) u sent))"

text \<open>
  The two-step pipeline. \<open>.split\<close> on the watermarked step-one image would be a TypeError
  were that image \<open>null\<close>.
\<close>

definition twoStep_branch ::
  "platform \<Rightarrow> remote \<Rightarrow> collaborators \<Rightarrow> ui \<Rightarrow> transformation \<Rightarrow> jsstring \<Rightarrow> ui \<Rightarrow> request list
    \<Rightarrow> completion \<times> ui \<times> request list" where
  "twoStep_branch pf rm cb s tr promptToUse u sent =
     (if \<not> truthy_str (primaryImageUrl s) \<or> \<not> truthy_str (secondaryImageUrl s)
      then (Returned, u\<lparr>error := Some (t cb (js ''app.error.uploadBoth'')), isLoading := False\<rparr>, sent)
      else
        (let u = u\<lparr>loadingMessage := t cb (js ''app.loading.step1'')\<rparr>;
             primaryPart = [toImagePart (str (primaryImageUrl s))];
             (stepOneResult, sent) = editImage pf rm sent promptToUse primaryPart None
         in case stepOneResult of
              Inl e \<Rightarrow> (Threw e, u, sent)
            | Inr stepOneResult \<Rightarrow>
                if \<not> truthy_str (imageUrl stepOneResult)
                then (Threw (ErrorObj (js ''Step 1 (line art) failed to generate an image.'')), u, sent)
                else
                  (case applyWatermarks cb (imageUrl stepOneResult) of
                     Inl e \<Rightarrow> (Threw e, u, sent)
                   | Inr watermarked \<Rightarrow>
                       (let stepOneResult = stepOneResult\<lparr>imageUrl := watermarked\<rparr>;
                            u = u\<lparr>loadingMessage := t cb (js ''app.loading.step2'')\<rparr>
                        in case imageUrl stepOneResult of
                             None \<Rightarrow> (Threw (ErrorObj (TypeError_message pf)), u, sent)
                           | Some stepOneUrl \<Rightarrow>
                               (case loadImage cb (str (primaryImageUrl s)) of
                                  Inl e \<Rightarrow> (Threw e, u, sent)
                                | Inr primaryImage \<Rightarrow>
                                    (case resizeImageToMatch cb (str (secondaryImageUrl s)) primaryImage of
                                       Inl e \<Rightarrow> (Threw e, u, sent)
                                     | Inr resizedSecondaryImageUrl \<Rightarrow>
                                         (let stepTwoParts =
                                                [toImagePart stepOneUrl,
                                                 toImagePart resizedSecondaryImageUrl];
                                              (stepTwoResult, sent) =
                                                editImage pf rm sent (stepTwoPrompt tr) stepTwoParts None
                                          in case stepTwoResult of
                                               Inl e \<Rightarrow> (Threw e, u, sent)
                                             | Inr stepTwoResult \<Rightarrow>
                                                 deliver cb stepTwoResult
                                                   (\<lambda>r. r\<lparr>content_secondaryImageUrl := imageUrl stepOneResult,
                                                          originalImageUrl := primaryImageUrl s\<rparr>)
                                                   u sent)))))))"

definition default_branch ::
  "platform \<Rightarrow> remote \<Rightarrow> collaborators \<Rightarrow> ui \<Rightarrow> transformation \<Rightarrow> jsstring \<Rightarrow> jsstring option
    \<Rightarrow> ui \<Rightarrow> request list \<Rightarrow> completion \<times> ui \<times> request list" where
  "default_branch pf rm cb s tr promptToUse maskBase64 u sent =
     (if \<not> truthy_str (primaryImageUrl s)
      then (Returned, u\<lparr>error := Some (t cb (js ''app.error.uploadAndSelect'')), isLoading := False\<rparr>, sent)
      else if isMultiImage tr \<and> \<not> isSecondaryOptional tr \<and> \<not> truthy_str (secondaryImageUrl s)
      then (Returned, u\<lparr>error := Some (t cb (js ''app.error.uploadBoth'')), isLoading := False\<rparr>, sent)
      else
        (let imageParts = [toImagePart (str (primaryImageUrl s))];
             imageParts =
               (if isMultiImage tr \<and> truthy_str (secondaryImageUrl s)
                then imageParts @ [toImagePart (str (secondaryImageUrl s))] else imageParts);
             u = u\<lparr>loadingMessage := t cb (js ''app.loading.default'')\<rparr>;
             (result, sent) = editImage pf rm sent promptToUse imageParts maskBase64
         in case result of
              Inl e \<Rightarrow> (Threw e, u, sent)
            | Inr result \<Rightarrow>
                deliver cb result (\<lambda>r. r\<lparr>originalImageUrl := primaryImageUrl s\<rparr>) u sent))"

text \<open>The \<open>try\<close> block of \<open>handleGenerateImage\<close>: the branches in the source's order.\<close>

definition handleGenerateImage_try ::
  "platform \<Rightarrow> remote \<Rightarrow> collaborators \<Rightarrow> ui \<Rightarrow> transformation \<Rightarrow> ui \<Rightarrow> request list
    \<Rightarrow> completion \<times> ui \<times> request list" where
  "handleGenerateImage_try pf rm cb s tr u sent =
     (let promptToUse = (if prompt tr = js ''CUSTOM'' then customPrompt s else prompt tr)
      in if key tr = js ''outfitStylist'' then lookbook_branch pf rm cb s u sent
         else if key tr = js ''chibiQrCode'' then chibiQrCode_branch pf rm cb s tr u sent
         else if isMultiStepVideo tr then multiStepVideo_branch pf rm cb s promptToUse u sent
         else if key tr = js ''customPrompt'' \<and> \<not> truthy_str (primaryImageUrl s)
           then textToImage_branch pf rm cb s promptToUse u sent
         else
           (let maskBase64 =
                  (if truthy_str (maskDataUrl s)
                   then nth_opt (js_split (str (maskDataUrl s)) (of_char CHR '','')) 1 else None)
            in if (case maxImages tr of None \<Rightarrow> False | Some n \<Rightarrow> n \<noteq> 0)
                 then maxImages_branch pf rm cb s promptToUse u sent
               else if isTwoStep tr then twoStep_branch pf rm cb s tr promptToUse u sent
               else default_branch pf rm cb s tr promptToUse maskBase64 u sent))"

text \<open>
  \<open>handleGenerateImage\<close>, run to its end from the state \<open>s\<close>: the guard, the resets, the
  \<open>try\<close> block, the \<open>catch\<close> that shows the error's message, and the \<open>finally\<close>.
\<close>

definition handleGenerateImage ::
  "platform \<Rightarrow> remote \<Rightarrow> collaborators \<Rightarrow> ui \<Rightarrow> request list \<Rightarrow> ui \<times> request list" where
  "handleGenerateImage pf rm cb s sent =
     (case selectedTransformation s of
        None \<Rightarrow> (s\<lparr>error := Some (t cb (js ''app.error.uploadAndSelect''))\<rparr>, sent)
      | Some tr \<Rightarrow>
          (let u = s\<lparr>isLoading := True, error := None, generatedContent := None,
                     generatedLookbookImages := [], loadingMessage := []\<rparr>;
               (c, u, sent) = handleGenerateImage_try pf rm cb s tr u sent;
               u = (case c of
                      Returned \<Rightarrow> u
                    | Threw err \<Rightarrow>
                        u\<lparr>error := Some (case err of ErrorObj m \<Rightarrow> m
                                          | NonError \<Rightarrow> t cb (js ''app.error.unknown''))\<rparr>)
           in (u\<lparr>isLoading := False, loadingMessage := []\<rparr>, sent)))"

section \<open>The gateway: \<open>generateVideo\<close>\<close>

text \<open>
  What the source reads of a video operation: \<open>done\<close>, \<open>error\<close> (absent, or a value whose
  \<open>message\<close> is read) and the \<open>uri\<close> of the first generated video.
\<close>

record operation =
  op_done :: bool
  op_error :: "json option"
  uri :: "jsstring option"

record video_request =
  video_prompt :: jsstring
  video_aspectRatio :: jsstring
  video_image :: "imagePart option"

text \<open>
  The video service: how the submission settles, and how the \<open>n\<close>-th poll of the job
  (counting from 0) settles.
\<close>

record video_service =
  generateVideos :: "video_request \<Rightarrow> operation promise"
  getVideosOperation :: "nat \<Rightarrow> operation \<Rightarrow> operation promise"

text \<open>
  What \<open>generateVideo\<close> does, in order: a progress notification, the submission, a wait
  of so many milliseconds, a poll, and the reading of the download link.
\<close>

datatype effect = Progress jsstring | Submit video_request | Wait nat | Poll | ReadLink

text \<open>
  The polling loop, from the \<open>n\<close>-th poll on. It has no bound: \<open>None\<close> is a loop that
  never ends.
\<close>

partial_function (option) poll_loop ::
  "video_service \<Rightarrow> nat \<Rightarrow> effect list \<Rightarrow> operation \<Rightarrow> (effect list \<times> operation promise) option" where
  "poll_loop vs n trace operation =
     (if \<not> op_done operation
      then (case getVideosOperation vs n operation of
              Inl e \<Rightarrow> Some (trace @ [Wait 10000, Poll], Inl e)
            | Inr operation' \<Rightarrow> poll_loop vs (Suc n) (trace @ [Wait 10000, Poll]) operation')
      else Some (trace, Inr operation))"

declare poll_loop.simps [code]

text \<open>The \<open>catch\<close> of \<open>generateVideo\<close>.\<close>

definition video_catch :: "platform \<Rightarrow> thrown \<Rightarrow> thrown" where
  "video_catch pf e =
     (case e of
        ErrorObj m \<Rightarrow> handleApiError pf (ErrorObj m)
      | NonError \<Rightarrow> ErrorObj (js ''An unknown error occurred during video generation.''))"

definition msg_video_failed :: jsstring where
  "msg_video_failed = js ''Video generation failed during operation.''"

text \<open>The message of the error thrown for an operation whose \<open>error\<close> is \<open>e\<close>.\<close>

definition operation_error_message :: "json \<Rightarrow> jsstring" where
  "operation_error_message e =
     (case get_prop e (js ''message'') of
        Some (JStr m) \<Rightarrow> (if m \<noteq> [] then m else msg_video_failed)
      | _ \<Rightarrow> msg_video_failed)"

text \<open>
  \<open>generateVideo\<close>: the effects in order and the settled promise, or \<open>None\<close> when the
  polling never ends. \<open>apiKey\<close> is \<open>process.env.API_KEY\<close>.
\<close>

definition generateVideo ::
  "platform \<Rightarrow> video_service \<Rightarrow> jsstring \<Rightarrow> jsstring \<Rightarrow> imagePart option \<Rightarrow> jsstring
    \<Rightarrow> (effect list \<times> jsstring promise) option" where
  "generateVideo pf vs apiKey prompt' image' aspectRatio' =
     (let request = \<lparr>video_prompt = prompt', video_aspectRatio = aspectRatio', video_image = image'\<rparr>;
          trace = [Progress (js ''Initializing video generation...''), Submit request]
      in case generateVideos vs request of
           Inl e \<Rightarrow> Some (trace, Inl (video_catch pf e))
         | Inr operation \<Rightarrow>
             (case poll_loop vs 0
                     (trace @ [Progress (js ''Polling for results, this may take a few minutes...'')])
                     operation of
                None \<Rightarrow> None
              | Some (trace, Inl e) \<Rightarrow> Some (trace, Inl (video_catch pf e))
              | Some (trace, Inr operation) \<Rightarrow>
                  (case (case op_error operation of None \<Rightarrow> None
                         | Some e \<Rightarrow> if truthy e then Some e else None) of
                     Some e \<Rightarrow>
                       Some (trace, Inl (video_catch pf (ErrorObj (operation_error_message e))))
                   | None \<Rightarrow>
                       (let downloadLink = uri operation;
                            trace = trace @ [ReadLink]
                        in if \<not> truthy_str downloadLink
                           then Some (trace, Inl (video_catch pf (ErrorObj (js
                                  ''Video generation completed, but no download link was found.''))))
                           else Some (trace, Inr (str downloadLink @ js ''&key='' @ apiKey))))))"

text \<open>
  The operation a job shows after \<open>k\<close> polls, as the service reports it: the operation
  the submission gave, then what each poll answers for the operation before it (\<open>Inl\<close>
  from the first poll that fails on).
\<close>

fun after_polls :: "video_service \<Rightarrow> operation \<Rightarrow> nat \<Rightarrow> operation promise" where
  "after_polls vs op0 0 = Inr op0"
| "after_polls vs op0 (Suc k) =
     (case after_polls vs op0 k of
        Inl e \<Rightarrow> Inl e
      | Inr operation \<Rightarrow> getVideosOperation vs k operation)"

section \<open>The application: \<open>handleGenerateVideo\<close> and the resets\<close>

text \<open>
  What the source reads of the response of \<open>fetch\<close>: \<open>ok\<close>, \<open>statusText\<close>, and the object
  URL that \<open>URL.createObjectURL\<close> gives for its blob (\<open>Inl\<close> when \<open>blob()\<close> rejects).
\<close>

record fetch_response =
  ok :: bool
  statusText :: jsstring
  blob_objectUrl :: "jsstring promise"

definition handleResetApp :: "ui \<Rightarrow> ui" where
  "handleResetApp u =
     u\<lparr>selectedTransformation := None, primaryImageUrl := None, primaryFile := None,
       secondaryImageUrl := None, secondaryFile := None, multiImageUrls := [],
       generatedContent := None, generatedLookbookImages := [], error := None,
       isLoading := False, maskDataUrl := None, customPrompt := [], activeTool := js ''none'',
       activeCategory := None, imageOptions := None, selectedOption := None,
       bankName := [], accountName := [], accountNumber := [], branch := [],
       lookbookMode := js ''lookbook'', askAiPrompt := [], lookbookDescription := [],
       numImages := 4, lookbookAspectRatio := js ''3:4'', outputQuality := js ''ultra''\<rparr>"

definition handleBackToSelection :: "ui \<Rightarrow> ui" where
  "handleBackToSelection u =
     u\<lparr>selectedTransformation := None, imageOptions := None, selectedOption := None,
       generatedLookbookImages := []\<rparr>"

text \<open>The \<open>catch\<close> and the \<open>finally\<close> of \<open>handleGenerateVideo\<close>, after an exception.\<close>

definition video_failed :: "collaborators \<Rightarrow> thrown \<Rightarrow> ui \<Rightarrow> ui" where
  "video_failed cb err u =
     u\<lparr>error := Some (case err of ErrorObj m \<Rightarrow> m | NonError \<Rightarrow> t cb (js ''app.error.unknown'')),
       isLoading := False, loadingMessage := []\<rparr>"

text \<open>
  \<open>handleGenerateVideo\<close> from the moment the promise of \<open>generateVideo\<close> settles: \<open>s\<close> is
  the state its closure reads, \<open>u\<close> the state of the application at that moment.
\<close>

definition handleGenerateVideo_resume ::
  "collaborators \<Rightarrow> (jsstring \<Rightarrow> fetch_response promise) \<Rightarrow> ui \<Rightarrow> jsstring promise \<Rightarrow> ui \<Rightarrow> ui" where
  "handleGenerateVideo_resume cb fetch s settled u =
     (case settled of
        Inl err \<Rightarrow> video_failed cb err u
      | Inr videoDownloadUrl \<Rightarrow>
          (let u = u\<lparr>loadingMessage := t cb (js ''app.loading.videoFetching'')\<rparr>
           in case fetch videoDownloadUrl of
                Inl err \<Rightarrow> video_failed cb err u
              | Inr response \<Rightarrow>
                  if \<not> ok response
                  then video_failed cb
                         (ErrorObj (js ''Failed to download video file. Status: '' @ statusText response)) u
                  else (case blob_objectUrl response of
                          Inl err \<Rightarrow> video_failed cb err u
                        | Inr objectUrl \<Rightarrow>
                            (let result =
                                   \<lparr>imageUrl = None, content_text = None, videoUrl = Some objectUrl,
                                    originalImageUrl = primaryImageUrl s,
                                    content_secondaryImageUrl = None\<rparr>
                             in u\<lparr>generatedContent := Some result, history := result # history u,
                                  isLoading := False, loadingMessage := []\<rparr>))))"

text \<open>The progress callback of \<open>handleGenerateVideo\<close>: \<open>setLoadingMessage\<close>.\<close>

fun notify :: "effect \<Rightarrow> ui \<Rightarrow> ui" where
  "notify (Progress message) u = u\<lparr>loadingMessage := message\<rparr>"
| "notify e u = u"

text \<open>
  \<open>handleGenerateVideo\<close>, run from the state \<open>s\<close>. While the call of \<open>generateVideo\<close> is
  awaited other handlers of the application can run: \<open>meanwhile\<close> is what they do to the
  state between the last progress notification and the settling of the call (the
  identity when none runs). \<open>None\<close> is a call that never settles.
\<close>

definition handleGenerateVideo ::
  "platform \<Rightarrow> video_service \<Rightarrow> jsstring \<Rightarrow> collaborators \<Rightarrow> (jsstring \<Rightarrow> fetch_response promise)
    \<Rightarrow> (ui \<Rightarrow> ui) \<Rightarrow> ui \<Rightarrow> ui option" where
  "handleGenerateVideo pf vs apiKey cb fetch meanwhile s =
     (case selectedTransformation s of
        None \<Rightarrow> Some s
      | Some tr \<Rightarrow>
          (let promptToUse = customPrompt s
           in if js_trim promptToUse = []
              then Some (s\<lparr>error := Some (t cb (js ''app.error.enterPrompt''))\<rparr>)
              else
                (let u = s\<lparr>isLoading := True, error := None, generatedContent := None\<rparr>;
                     imagePayload =
                       (if truthy_str (primaryImageUrl s)
                        then Some (toImagePart (str (primaryImageUrl s))) else None)
                 in case generateVideo pf vs apiKey promptToUse imagePayload (aspectRatio s) of
                      None \<Rightarrow> None
                    | Some (trace, settled) \<Rightarrow>
                        Some (handleGenerateVideo_resume cb fetch s settled
                                (meanwhile (fold notify trace u))))))"

section \<open>Sample inputs\<close>

text \<open>
  Concrete inputs at which the theorems below are evaluated. \<open>sample_platform\<close> agrees
  with the built-ins on the strings used: \<open>ascii_upper\<close> is \<open>toUpperCase\<close> on ASCII text,
  on which NFD changes nothing, and \<open>sample_parse\<close> is \<open>JSON.parse\<close> on the six JSON texts
  it lists and on the texts used below that are no JSON.
\<close>

definition ascii_upper :: "jsstring \<Rightarrow> jsstring" where
  "ascii_upper s = map (\<lambda>c. if 0x61 \<le> c \<and> c \<le> 0x7A then c - 0x20 else c) s"

definition provider_error :: "rat \<Rightarrow> string \<Rightarrow> string \<Rightarrow> json" where
  "provider_error c m st =
     JObj [(js ''error'',
            JObj [(js ''code'', JNum c), (js ''message'', JStr (js m)), (js ''status'', JStr (js st))])]"

definition sample_parse :: "jsstring \<Rightarrow> json option" where
  \<open>sample_parse s =
    (if s = js ''{"error":{"code":503,"message":"The model is overloaded.","status":"UNAVAILABLE"}}''
       then Some (provider_error 503 ''The model is overloaded.'' ''UNAVAILABLE'')
     else if s = js ''{"error":{"code":500,"message":"Internal error encountered.","status":"INTERNAL"}}''
       then Some (provider_error 500 ''Internal error encountered.'' ''INTERNAL'')
     else if s = js ''{"error":{"code":429,"message":"Resource has been exhausted.","status":"RESOURCE_EXHAUSTED"}}''
       then Some (provider_error 429 ''Resource has been exhausted.'' ''RESOURCE_EXHAUSTED'')
     else if s = js ''{"error":{"code":400,"message":"API key not valid.","status":"INVALID_ARGUMENT"}}''
       then Some (provider_error 400 ''API key not valid.'' ''INVALID_ARGUMENT'')
     else if s = js ''["B","A"]'' then Some (JArr [JStr (js ''B''), JStr (js ''A'')])
     else if s = js ''["B","Z","A"]''
       then Some (JArr [JStr (js ''B''), JStr (js ''Z''), JStr (js ''A'')])
     else None)\<close>

definition sample_platform :: platform where
  "sample_platform =
     \<lparr>JSON_parse = sample_parse, Number_toString = (\<lambda>n. []), toUpperCase = ascii_upper,
      normalize_NFD = (\<lambda>s. s),
      TypeError_message = js ''Cannot read properties of null''\<rparr>"

definition sample_image :: imagePart where
  "sample_image = \<lparr>base64 = Some (js ''AAAA''), mimeType = js ''image/png''\<rparr>"

definition other_image :: imagePart where
  "other_image = \<lparr>base64 = Some (js ''BBBB''), mimeType = js ''image/jpeg''\<rparr>"

text \<open>A response with one image, and a response with text alone.\<close>

definition image_response :: response where
  "image_response =
     \<lparr>candidates = Some
        [\<lparr>content_parts = Some
             [\<lparr>part_text = None,
               part_inlineData = Some (Some (js ''image/png''), Some (js ''CCCC''))\<rparr>],
          finishReason = Some (js ''STOP''), safetyRatings = None\<rparr>]\<rparr>"

definition text_response :: response where
  "text_response =
     \<lparr>candidates = Some
        [\<lparr>content_parts = Some [\<lparr>part_text = Some (js ''Sorry.''), part_inlineData = None\<rparr>],
          finishReason = Some (js ''STOP''), safetyRatings = None\<rparr>]\<rparr>"

text \<open>
  A service whose first request fails on the network and whose later requests return an
  image; one whose second request comes back without an image; one that returns an image
  every time; one that never returns an image.
\<close>

definition first_fails :: remote where
  "first_fails =
     \<lparr>generateContent =
        (\<lambda>k parts. if k = 0 then Inl (ErrorObj (js ''Failed to fetch'')) else Inr image_response),
      settles_at = (\<lambda>k. k), generateImages = (\<lambda>k p a. Inr None)\<rparr>"

definition second_empty :: remote where
  "second_empty =
     \<lparr>generateContent = (\<lambda>k parts. if k = 1 then Inr text_response else Inr image_response),
      settles_at = (\<lambda>k. k), generateImages = (\<lambda>k p a. Inr None)\<rparr>"

definition always_image :: remote where
  "always_image =
     \<lparr>generateContent = (\<lambda>k parts. Inr image_response),
      settles_at = (\<lambda>k. k), generateImages = (\<lambda>k p a. Inr None)\<rparr>"

definition never_image :: remote where
  "never_image =
     \<lparr>generateContent = (\<lambda>k parts. Inr text_response),
      settles_at = (\<lambda>k. k), generateImages = (\<lambda>k p a. Inr None)\<rparr>"

text \<open>
  Collaborators whose watermark stages append a mark; the same with a failing invisible
  stage; the same with a failing visible stage.
\<close>

definition marking :: collaborators where
  "marking =
     \<lparr>embedWatermark = (\<lambda>url sig. Inr (url @ js ''+i'')),
      addVisibleWatermark = (\<lambda>url sig. Inr (url @ js ''+v'')),
      loadImage = (\<lambda>url. Inr \<lparr>width = 4, height = 3\<rparr>),
      resizeImageToMatch = (\<lambda>url img. Inr url),
      t = (\<lambda>k. k)\<rparr>"

definition embed_fails :: collaborators where
  "embed_fails = marking\<lparr>embedWatermark := (\<lambda>url sig. Inl (ErrorObj (js ''canvas'')))\<rparr>"

definition visible_fails :: collaborators where
  "visible_fails = marking\<lparr>addVisibleWatermark := (\<lambda>url sig. Inl NonError)\<rparr>"

text \<open>A catalogue entry with every flag off, and the state of a fresh session.\<close>

definition plain_entry :: transformation where
  "plain_entry =
     \<lparr>key = js ''pixelArt'', prompt = js ''Make it pixel art.'', isMultiImage = False,
      isSecondaryOptional = False, maxImages = None, isTwoStep = False, stepTwoPrompt = [],
      isMultiStepVideo = False, isVideo = False, videoPrompt = None\<rparr>"

definition fresh :: ui where
  "fresh =
     \<lparr>selectedTransformation = None, primaryImageUrl = None, primaryFile = None,
      secondaryImageUrl = None, secondaryFile = None, multiImageUrls = [],
      generatedContent = None, isLoading = False, loadingMessage = [], error = None,
      maskDataUrl = None, customPrompt = [], aspectRatio = js ''16:9'',
      imageAspectRatio = js ''1:1'', activeTool = js ''none'', history = [],
      activeCategory = None, imageOptions = None, selectedOption = None,
      generatedLookbookImages = [], bankName = [], accountName = [], accountNumber = [],
      branch = [], lookbookMode = js ''lookbook'', askAiPrompt = [], lookbookDescription = [],
      numImages = 4, lookbookAspectRatio = js ''3:4'', outputQuality = js ''ultra''\<rparr>"

text \<open>
  Video operations: one still running, one finished with a download link, one finished
  with an error (and a link all the same). A job that is done at its second poll, and a
  job that has failed at its first poll.
\<close>

definition pending :: operation where
  "pending = \<lparr>op_done = False, op_error = None, uri = None\<rparr>"

definition finished :: operation where
  "finished =
     \<lparr>op_done = True, op_error = None, uri = Some (js ''https://video.test/v.mp4?alt=media'')\<rparr>"

definition failed :: operation where
  "failed =
     \<lparr>op_done = True,
      op_error = Some (JObj [(js ''code'', JNum 8), (js ''message'', JStr (js ''Quota exceeded.''))]),
      uri = Some (js ''https://video.test/v.mp4?alt=media'')\<rparr>"

definition done_at_second_poll :: video_service where
  "done_at_second_poll =
     \<lparr>generateVideos = (\<lambda>request. Inr pending),
      getVideosOperation = (\<lambda>n operation. if n = 0 then Inr pending else Inr finished)\<rparr>"


text \<open>The effects of \<open>generateVideo\<close> up to the start of the polling loop.\<close>

definition polling_trace :: "jsstring \<Rightarrow> imagePart option \<Rightarrow> jsstring \<Rightarrow> effect list" where
  "polling_trace p i a =
     [Progress (js ''Initializing video generation...''),
      Submit \<lparr>video_prompt = p, video_aspectRatio = a, video_image = i\<rparr>,
      Progress (js ''Polling for results, this may take a few minutes...'')]"

text \<open>A download that succeeds.\<close>

definition fetch_ok :: "jsstring \<Rightarrow> fetch_response promise" where
  "fetch_ok url = Inr \<lparr>ok = True, statusText = js ''OK'', blob_objectUrl = Inr (js ''blob:video-1'')\<rparr>"

text \<open>
  Sessions: one about to generate a video from a prompt; one about to run a two-step
  entry on two images; one about to run the payment-QR entry.
\<close>

definition video_session :: ui where
  "video_session =
     fresh\<lparr>selectedTransformation := Some (plain_entry\<lparr>key := js ''videoGen'', isVideo := True\<rparr>),
           customPrompt := js ''A cat walking''\<rparr>"

definition twoStep_session :: ui where
  "twoStep_session =
     fresh\<lparr>selectedTransformation :=
             Some (plain_entry\<lparr>key := js ''colorize'', prompt := js ''Draw the line art.'',
                               isMultiImage := True, isTwoStep := True,
                               stepTwoPrompt := js ''Color it with this palette.''\<rparr>),
           primaryImageUrl := Some (js ''data:image/png;base64,AAAA''),
           secondaryImageUrl := Some (js ''data:image/jpeg;base64,BBBB'')\<rparr>"

definition chibi_session :: ui where
  "chibi_session =
     fresh\<lparr>selectedTransformation :=
             Some (plain_entry\<lparr>key := js ''chibiQrCode'', isMultiImage := True,
                     prompt := js ''{{bankName}}|{{accountName}}|{{accountNumber}}|{{branch}}''\<rparr>),
           primaryImageUrl := Some (js ''data:image/png;base64,AAAA''),
           secondaryImageUrl := Some (js ''data:image/jpeg;base64,BBBB''),
           bankName := js ''vcb'', accountName := js ''le an'', accountNumber := js ''ab12'',
           branch := js ''hue''\<rparr>"


section \<open>Evaluation lemmas\<close>

lemma four_unfold: "(4::nat) = Suc (Suc (Suc (Suc 0)))"
  by simp

lemma settle_rejected: "editImage_settle pf (Inl e) = Inl (handleApiError pf e)"
  by (simp add: editImage_settle_def)

lemma settle_image_response:
  "editImage_settle pf (Inr image_response) =
     Inr \<lparr>imageUrl = Some (js ''data:'' @ js ''image/png'' @ js '';base64,'' @ js ''CCCC''),
          content_text = None, videoUrl = None, originalImageUrl = None,
          content_secondaryImageUrl = None\<rparr>"
  by (simp add: editImage_settle_def image_response_def first_candidate_def Let_def js_def)

lemma failed_fetch_kept:
  "handleApiError sample_platform (ErrorObj (js ''Failed to fetch'')) = ErrorObj (js ''Failed to fetch'')"
  by (simp add: handleApiError_def parse_api_error_def sample_platform_def sample_parse_def js_def
      js_substring_def)

lemma first_fails_simps:
  "generateContent first_fails 0 parts = Inl (ErrorObj (js ''Failed to fetch''))"
  "generateContent first_fails (Suc k) parts = Inr image_response"
  "settles_at first_fails k = k"
  by (simp_all add: first_fails_def)

lemma js_cat: "js a @ js b = js (a @ b)" "js a @ js b @ r = js (a @ b) @ r"
  by (simp_all add: js_def)

lemma no_image_kept:
  "handleApiError sample_platform (ErrorObj msg_no_image) = ErrorObj msg_no_image"
  by (simp add: handleApiError_def parse_api_error_def sample_platform_def sample_parse_def js_def
      js_substring_def msg_no_image_def)

lemma settle_text_response:
  "editImage_settle pf (Inr text_response) = Inl (handleApiError pf (ErrorObj msg_no_image))"
  by (simp add: editImage_settle_def text_response_def first_candidate_def Let_def js_def)

lemma second_empty_simps:
  "generateContent second_empty 0 parts = Inr image_response"
  "generateContent second_empty (Suc 0) parts = Inr text_response"
  "generateContent second_empty (Suc (Suc k)) parts = Inr image_response"
  "settles_at second_empty k = k"
  by (simp_all add: second_empty_def)

section \<open>Lemmas on the handlers\<close>

lemma handleGenerateImage_threw:
  assumes "selectedTransformation s = Some tr"
    and "handleGenerateImage_try pf rm cb s tr
           (s\<lparr>isLoading := True, error := None, generatedContent := None,
              generatedLookbookImages := [], loadingMessage := []\<rparr>) sent = (Threw err, u, sent')"
  shows "handleGenerateImage pf rm cb s sent =
     (u\<lparr>error := Some (case err of ErrorObj m \<Rightarrow> m | NonError \<Rightarrow> t cb (js ''app.error.unknown'')),
        isLoading := False, loadingMessage := []\<rparr>, sent')"
  by (simp add: handleGenerateImage_def Let_def assms)

lemma handleGenerateImage_returned:
  assumes "selectedTransformation s = Some tr"
    and "handleGenerateImage_try pf rm cb s tr
           (s\<lparr>isLoading := True, error := None, generatedContent := None,
              generatedLookbookImages := [], loadingMessage := []\<rparr>) sent = (Returned, u, sent')"
  shows "handleGenerateImage pf rm cb s sent = (u\<lparr>isLoading := False, loadingMessage := []\<rparr>, sent')"
  by (simp add: handleGenerateImage_def Let_def assms)

lemma try_twoStep:
  assumes k1: "key tr \<noteq> js ''outfitStylist''" and k2: "key tr \<noteq> js ''chibiQrCode''"
    and flags: "\<not> isMultiStepVideo tr" "maxImages tr = None \<or> maxImages tr = Some 0" "isTwoStep tr"
    and p: "truthy_str (primaryImageUrl s)"
  shows "handleGenerateImage_try pf rm cb s tr u sent =
     twoStep_branch pf rm cb s tr (if prompt tr = js ''CUSTOM'' then customPrompt s else prompt tr) u sent"
  using flags(2) by (auto simp add: handleGenerateImage_try_def Let_def k1 k2 flags(1,3) p)

lemma twoStep_threw:
  assumes p: "primaryImageUrl s = Some p" "p \<noteq> []"
    and q: "secondaryImageUrl s = Some q" "q \<noteq> []"
    and r: "\<And>c. editImage_settle pf (generateContent rm (length sent)
              [inline_image (toImagePart p), TextPart promptToUse]) = Inr c \<Longrightarrow> \<not> truthy_str (imageUrl c)"
  shows "\<exists>err. twoStep_branch pf rm cb s tr promptToUse u sent =
           (Threw err, u\<lparr>loadingMessage := t cb (js ''app.loading.step1'')\<rparr>,
            sent @ [GenerateContent [inline_image (toImagePart p), TextPart promptToUse]])"
proof (cases "editImage_settle pf (generateContent rm (length sent)
              [inline_image (toImagePart p), TextPart promptToUse])")
  case (Inl e)
  then show ?thesis
    by (simp add: twoStep_branch_def editImage_def editImage_parts_def Let_def p q)
next
  case (Inr c)
  with r have "\<not> truthy_str (imageUrl c)" by simp
  with Inr show ?thesis
    by (simp add: twoStep_branch_def editImage_def editImage_parts_def Let_def p q)
qed

section \<open>Lemmas on the polling loop\<close>




section \<open>Lemmas on the display order\<close>

lemma lookup_rev_key:
  "map_of (rev (map (\<lambda>tr. (key tr, tr)) xs)) k = Some tr \<Longrightarrow> key tr = k \<and> tr \<in> set xs"
  using map_of_SomeD [of "rev (map (\<lambda>tr. (key tr, tr)) xs)" k tr] by auto

lemma lookup_rev_None:
  "(map_of (rev (map (\<lambda>tr. (key tr, tr)) xs)) k = None) = (k \<notin> key ` set xs)"
  by (simp add: map_of_eq_None_iff image_image)

lemma ordered_keys:
  "map key (List.map_filter
      (\<lambda>k. case k of JStr k' \<Rightarrow> map_of (rev (map (\<lambda>tr. (key tr, tr)) TS)) k' | _ \<Rightarrow> None)
      (map JStr ks)) = filter (\<lambda>k. k \<in> key ` set TS) ks"
proof (induction ks)
  case Nil
  show ?case by (simp add: List.map_filter_simps)
next
  case (Cons k ks)
  show ?case
  proof (cases "map_of (rev (map (\<lambda>tr. (key tr, tr)) TS)) k")
    case None
    then have "k \<notin> key ` set TS" by (simp add: lookup_rev_None)
    with None Cons show ?thesis by (simp add: List.map_filter_simps)
  next
    case (Some tr)
    then have "key tr = k" "tr \<in> set TS" using lookup_rev_key by blast+
    then have "k \<in> key ` set TS" by blast
    with Some Cons \<open>key tr = k\<close> show ?thesis by (simp add: List.map_filter_simps)
  qed
qed

lemma new_keys:
  "map key (filter (\<lambda>tr. JStr (key tr) \<notin> set (map JStr ks)) TS)
     = filter (\<lambda>k. k \<notin> set ks) (map key TS)"
  by (induction TS) auto

section \<open>Further lemmas\<close>

lemma js_eq_Nil: "(js s = []) = (s = [])"
  by (simp add: js_def)

lemma truthy_str_iff: "truthy_str x = (\<exists>l. x = Some l \<and> l \<noteq> [])"
  by (cases x) auto

lemma toImagePart_png:
  "toImagePart (js ''data:image/png;base64,AAAA'') =
     \<lparr>base64 = Some (js ''AAAA''), mimeType = js ''image/png''\<rparr>"
  by (simp add: toImagePart_def js_def)

lemma toImagePart_jpeg:
  "toImagePart (js ''data:image/jpeg;base64,BBBB'') =
     \<lparr>base64 = Some (js ''BBBB''), mimeType = js ''image/jpeg''\<rparr>"
  by (simp add: toImagePart_def js_def)

lemma never_image_simps: "generateContent never_image k parts = Inr text_response"
  by (simp add: never_image_def)

lemma always_image_simps: "generateContent always_image k parts = Inr image_response"
  by (simp add: always_image_def)

lemma entry_keys:
  "js ''colorize'' \<noteq> js ''outfitStylist''" "js ''colorize'' \<noteq> js ''chibiQrCode''"
  "js ''Draw the line art.'' \<noteq> js ''CUSTOM''" "js ''chibiQrCode'' \<noteq> js ''outfitStylist''"
  by (simp_all add: js_def)

lemma format_samples:
  "formatBankText sample_platform (js ''vcb'') = js ''VCB''"
  "formatBankText sample_platform (js ''le an'') = js ''LE AN''"
  "formatBankText sample_platform (js ''hue'') = js ''HUE''"
  "formatBankText sample_platform (js ''ab12'') = js ''AB12''"
  by (simp_all add: formatBankText_def sample_platform_def ascii_upper_def js_def)

lemma replace_samples:
  "js_replace (js ''{{bankName}}|{{accountName}}|{{accountNumber}}|{{branch}}'') (js ''{{bankName}}'')
     (js ''VCB'') = js ''VCB|{{accountName}}|{{accountNumber}}|{{branch}}''"
  "js_replace (js ''VCB|{{accountName}}|{{accountNumber}}|{{branch}}'') (js ''{{accountName}}'')
     (js ''LE AN'') = js ''VCB|LE AN|{{accountNumber}}|{{branch}}''"
  "js_replace (js ''VCB|LE AN|{{accountNumber}}|{{branch}}'') (js ''{{accountNumber}}'') (js ''ab12'')
     = js ''VCB|LE AN|ab12|{{branch}}''"
  "js_replace (js ''VCB|LE AN|ab12|{{branch}}'') (js ''{{branch}}'') (js ''HUE'')
     = js ''VCB|LE AN|ab12|HUE''"
  by (simp_all add: js_replace_def js_def)

lemma trim_samples:
  "js_trim (js ''vcb'') \<noteq> []" "js_trim (js ''le an'') \<noteq> []" "js_trim (js ''ab12'') \<noteq> []"
  "js_trim (js ''hue'') \<noteq> []" "js_trim (js ''A cat walking'') \<noteq> []"
  by (simp_all add: js_trim_def js_whitespace_def js_def)

lemma deliver_sent: "snd (snd (deliver cb result finish u sent)) = sent"
  by (simp add: deliver_def Let_def split: sum.splits)

lemma handleGenerateImage_sent:
  "selectedTransformation s = Some tr \<Longrightarrow>
   snd (handleGenerateImage pf rm cb s sent) =
     snd (snd (handleGenerateImage_try pf rm cb s tr
        (s\<lparr>isLoading := True, error := None, generatedContent := None,
              generatedLookbookImages := [], loadingMessage := []\<rparr>) sent))"
  by (simp add: handleGenerateImage_def Let_def split: prod.splits)

lemma chibi_request:
  assumes "selectedTransformation s = Some tr" "key tr = js ''chibiQrCode''"
    and "primaryImageUrl s = Some p" "p \<noteq> []" "secondaryImageUrl s = Some q" "q \<noteq> []"
    and "js_trim (bankName s) \<noteq> []" "js_trim (accountName s) \<noteq> []"
        "js_trim (accountNumber s) \<noteq> []" "js_trim (branch s) \<noteq> []"
  shows "snd (handleGenerateImage pf rm cb s sent) =
     sent @ [GenerateContent
       [inline_image (toImagePart p), inline_image (toImagePart q),
        TextPart
          (js_replace
             (js_replace
                (js_replace
                   (js_replace (prompt tr) (js ''{{bankName}}'') (formatBankText pf (bankName s)))
                   (js ''{{accountName}}'') (formatBankText pf (accountName s)))
                (js ''{{accountNumber}}'') (accountNumber s))
             (js ''{{branch}}'') (formatBankText pf (branch s)))]]"
  using assms
  by (simp add: handleGenerateImage_sent handleGenerateImage_try_def entry_keys chibiQrCode_branch_def
      Let_def editImage_def editImage_parts_def deliver_sent split: sum.splits)

lemma formatBankText_ascii_marks:
  "c \<in> set (formatBankText pf x) \<Longrightarrow> c \<noteq> 0x110 \<and> \<not> (0x300 \<le> c \<and> c \<le> 0x36F)"
  by (auto simp add: formatBankText_def)

lemma generateVideo_two_polls:
  assumes "generateVideos vs \<lparr>video_prompt = p, video_aspectRatio = a, video_image = i\<rparr> = Inr op0"
    and "\<not> op_done op0"
    and "getVideosOperation vs 0 op0 = Inr op1" "\<not> op_done op1"
    and "getVideosOperation vs 1 op1 = Inr op2" "op_done op2"
    and "op_error op2 = None" "uri op2 = Some link" "link \<noteq> []"
  shows "generateVideo pf vs apiKey p i a =
          Some (polling_trace p i a @ [Wait 10000, Poll, Wait 10000, Poll, ReadLink],
                Inr (link @ js ''&key='' @ apiKey))"
proof -
  from assms have "poll_loop vs 0 (polling_trace p i a) op0
     = Some (polling_trace p i a @ [Wait 10000, Poll, Wait 10000, Poll], Inr op2)"
    by (simp add: poll_loop.simps)
  with assms show ?thesis
    by (simp add: generateVideo_def polling_trace_def Let_def)
qed


lemma generateVideo_success_shape:
  assumes "generateVideo pf vs apiKey p i a = Some (trace, Inr url)"
  shows "\<exists>op0 tr final link.
           generateVideos vs \<lparr>video_prompt = p, video_aspectRatio = a, video_image = i\<rparr> = Inr op0
           \<and> poll_loop vs 0 (polling_trace p i a) op0 = Some (tr, Inr final)
           \<and> uri final = Some link \<and> link \<noteq> []
           \<and> url = link @ js ''&key='' @ apiKey"
  using assms
  by (auto simp add: generateVideo_def polling_trace_def Let_def truthy_str_iff
      split: sum.splits option.splits prod.splits if_splits)

lemma done_at_second_poll_run:
  "generateVideo pf done_at_second_poll apiKey p i a =
     Some (polling_trace p i a @ [Wait 10000, Poll, Wait 10000, Poll, ReadLink],
           Inr (js ''https://video.test/v.mp4?alt=media'' @ js ''&key='' @ apiKey))"
  by (rule generateVideo_two_polls [where ?op0.0 = pending and ?op1.0 = pending and ?op2.0 = finished])
    (simp_all add: done_at_second_poll_def pending_def finished_def js_eq_Nil)



lemma handleGenerateVideo_applies:
  assumes "selectedTransformation s = Some tr" "js_trim (customPrompt s) \<noteq> []"
    and "generateVideo pf vs apiKey (customPrompt s)
           (if truthy_str (primaryImageUrl s) then Some (toImagePart (str (primaryImageUrl s))) else None)
           (aspectRatio s) = Some (trace, Inr url)"
    and "fetch url = Inr response" "ok response" "blob_objectUrl response = Inr objectUrl"
  shows "handleGenerateVideo pf vs apiKey cb fetch meanwhile s =
     Some ((meanwhile (fold notify trace (s\<lparr>isLoading := True, error := None, generatedContent := None\<rparr>)))
            \<lparr>loadingMessage := t cb (js ''app.loading.videoFetching''),
             generatedContent := Some \<lparr>imageUrl = None, content_text = None, videoUrl = Some objectUrl,
                                    originalImageUrl = primaryImageUrl s,
                                    content_secondaryImageUrl = None\<rparr>,
             history := \<lparr>imageUrl = None, content_text = None, videoUrl = Some objectUrl,
                                    originalImageUrl = primaryImageUrl s,
                                    content_secondaryImageUrl = None\<rparr>
                        # history (meanwhile (fold notify trace
                              (s\<lparr>isLoading := True, error := None, generatedContent := None\<rparr>))),
             isLoading := False, loadingMessage := []\<rparr>)"
  using assms
  by (simp add: handleGenerateVideo_def handleGenerateVideo_resume_def Let_def)

lemma notify_history: "history (fold notify trace u) = history u"
proof (induction trace arbitrary: u)
  case Nil
  show ?case by simp
next
  case (Cons e trace)
  then show ?case by (cases e) simp_all
qed

lemma video_session_fields:
  "selectedTransformation video_session = Some (plain_entry\<lparr>key := js ''videoGen'', isVideo := True\<rparr>)"
  "customPrompt video_session = js ''A cat walking''" "primaryImageUrl video_session = None"
  "aspectRatio video_session = js ''16:9''" "history video_session = []"
  by (simp_all add: video_session_def fresh_def)

lemma video_session_run:
  "generateVideo sample_platform done_at_second_poll (js ''KEY'') (customPrompt video_session)
     (if truthy_str (primaryImageUrl video_session)
      then Some (toImagePart (str (primaryImageUrl video_session))) else None)
     (aspectRatio video_session) =
   Some (polling_trace (js ''A cat walking'') None (js ''16:9'')
           @ [Wait 10000, Poll, Wait 10000, Poll, ReadLink],
         Inr (js ''https://video.test/v.mp4?alt=media'' @ js ''&key='' @ js ''KEY''))"
  by (simp add: video_session_fields done_at_second_poll_run)

lemma ordered_entries:
  "set (List.map_filter
      (\<lambda>k. case k of JStr k' \<Rightarrow> map_of (rev (map (\<lambda>tr. (key tr, tr)) TS)) k' | _ \<Rightarrow> None) xs)
     \<subseteq> set TS"
proof
  fix x
  assume "x \<in> set (List.map_filter
      (\<lambda>k. case k of JStr k' \<Rightarrow> map_of (rev (map (\<lambda>tr. (key tr, tr)) TS)) k' | _ \<Rightarrow> None) xs)"
  then obtain k where
    "(case k of JStr k' \<Rightarrow> map_of (rev (map (\<lambda>tr. (key tr, tr)) TS)) k' | _ \<Rightarrow> None) = Some x"
    by (auto simp add: List.map_filter_def)
  then obtain k' where "map_of (rev (map (\<lambda>tr. (key tr, tr)) TS)) k' = Some x"
    by (cases k) simp_all
  then show "x \<in> set TS"
    using lookup_rev_key by blast
qed

lemma chibi_session_fields:
  "selectedTransformation chibi_session =
      Some (plain_entry\<lparr>key := js ''chibiQrCode'', isMultiImage := True,
                     prompt := js ''{{bankName}}|{{accountName}}|{{accountNumber}}|{{branch}}''\<rparr>)"
  "primaryImageUrl chibi_session = Some (js ''data:image/png;base64,AAAA'')"
  "secondaryImageUrl chibi_session = Some (js ''data:image/jpeg;base64,BBBB'')"
  "bankName chibi_session = js ''vcb''" "accountName chibi_session = js ''le an''"
  "accountNumber chibi_session = js ''ab12''" "branch chibi_session = js ''hue''"
  by (simp_all add: chibi_session_def fresh_def)

lemma chibi_entry_fields:
  "key (plain_entry\<lparr>key := js ''chibiQrCode'', isMultiImage := True,
                     prompt := js ''{{bankName}}|{{accountName}}|{{accountNumber}}|{{branch}}''\<rparr>)
     = js ''chibiQrCode''"
  "prompt (plain_entry\<lparr>key := js ''chibiQrCode'', isMultiImage := True,
                     prompt := js ''{{bankName}}|{{accountName}}|{{accountNumber}}|{{branch}}''\<rparr>)
     = js ''{{bankName}}|{{accountName}}|{{accountNumber}}|{{branch}}''"
  by simp_all

lemma chibi_session_request:
  "snd (handleGenerateImage sample_platform always_image marking chibi_session []) =
     [GenerateContent
        [InlineData (Some (js ''AAAA'')) (js ''image/png''),
         InlineData (Some (js ''BBBB'')) (js ''image/jpeg''),
         TextPart (js ''VCB|LE AN|ab12|HUE'')]]"
proof -
  have "snd (handleGenerateImage sample_platform always_image marking chibi_session []) =
     [] @ [GenerateContent
       [inline_image (toImagePart (js ''data:image/png;base64,AAAA'')),
        inline_image (toImagePart (js ''data:image/jpeg;base64,BBBB'')),
        TextPart
          (js_replace
             (js_replace
                (js_replace
                   (js_replace (prompt (plain_entry\<lparr>key := js ''chibiQrCode'', isMultiImage := True,
                     prompt := js ''{{bankName}}|{{accountName}}|{{accountNumber}}|{{branch}}''\<rparr>))
                      (js ''{{bankName}}'') (formatBankText sample_platform (bankName chibi_session)))
                   (js ''{{accountName}}'') (formatBankText sample_platform (accountName chibi_session)))
                (js ''{{accountNumber}}'') (accountNumber chibi_session))
             (js ''{{branch}}'') (formatBankText sample_platform (branch chibi_session)))]]"
    by (rule chibi_request [OF chibi_session_fields(1) chibi_entry_fields(1) chibi_session_fields(2) _
          chibi_session_fields(3)])
      (simp_all only: chibi_session_fields trim_samples js_eq_Nil, simp_all)
  then show ?thesis
    unfolding chibi_entry_fields chibi_session_fields format_samples replace_samples
      toImagePart_png toImagePart_jpeg inline_image_def
    by simp
qed

lemma reset_fields:
  "history (handleResetApp u) = history u" "selectedTransformation (handleResetApp u) = None"
  "primaryImageUrl (handleResetApp u) = None" "customPrompt (handleResetApp u) = []"
  "history (handleBackToSelection u) = history u"
  "selectedTransformation (handleBackToSelection u) = None"
  by (simp_all add: handleResetApp_def handleBackToSelection_def)



lemma poll_loop_runs:
  assumes running: "\<forall>k<n. \<exists>operation. after_polls vs op0 k = Inr operation \<and> \<not> op_done operation"
    and final: "after_polls vs op0 n = Inr final" "op_done final"
  shows "m \<le> n \<Longrightarrow> after_polls vs op0 m = Inr current \<Longrightarrow>
     poll_loop vs m trace current =
       Some (trace @ concat (replicate (n - m) [Wait 10000, Poll]), Inr final)"
proof (induction "n - m" arbitrary: m trace current)
  case 0
  then have "m = n" by simp
  with 0 final have "current = final" by simp
  with final \<open>m = n\<close> show ?case by (simp add: poll_loop.simps)
next
  case (Suc d)
  then have less: "m < n" by simp
  with running Suc.prems(2) have not_done: "\<not> op_done current" by auto
  have "\<exists>next. after_polls vs op0 (Suc m) = Inr next"
  proof (cases "Suc m = n")
    case True
    with final show ?thesis by auto
  next
    case False
    with less have "Suc m < n" by simp
    with running show ?thesis by blast
  qed
  then obtain "next" where nxt: "after_polls vs op0 (Suc m) = Inr next" by blast
  with Suc.prems(2) have poll: "getVideosOperation vs m current = Inr next" by simp
  from Suc.hyps(2) have d: "d = n - Suc m" by simp
  from less have le: "Suc m \<le> n" by simp
  have rep: "n - m = Suc (n - Suc m)" using less by simp
  have "poll_loop vs m trace current = poll_loop vs (Suc m) (trace @ [Wait 10000, Poll]) next"
    using not_done poll by (subst poll_loop.simps) simp
  also have "\<dots> = Some ((trace @ [Wait 10000, Poll]) @ concat (replicate (n - Suc m) [Wait 10000, Poll]),
                      Inr final)"
    by (rule Suc.hyps(1) [OF d le nxt])
  finally show ?case by (simp add: rep)
qed

lemma generateVideo_completes:
  assumes "generateVideos vs \<lparr>video_prompt = p, video_aspectRatio = a, video_image = i\<rparr> = Inr op0"
    and "\<forall>k<n. \<exists>operation. after_polls vs op0 k = Inr operation \<and> \<not> op_done operation"
    and "after_polls vs op0 n = Inr final" "op_done final"
    and "\<forall>e. op_error final = Some e \<longrightarrow> \<not> truthy e"
    and "uri final = Some link" "link \<noteq> []"
  shows "generateVideo pf vs apiKey p i a =
     Some (polling_trace p i a @ concat (replicate n [Wait 10000, Poll]) @ [ReadLink],
           Inr (link @ js ''&key='' @ apiKey))"
proof -
  have "poll_loop vs 0 (polling_trace p i a) op0 =
      Some (polling_trace p i a @ concat (replicate (n - 0) [Wait 10000, Poll]), Inr final)"
    by (rule poll_loop_runs [OF assms(2,3,4)]) simp_all
  moreover have "(case op_error final of None \<Rightarrow> None
                         | Some e \<Rightarrow> if truthy e then Some e else None) = None"
    using assms(5) by (cases "op_error final") simp_all
  ultimately show ?thesis
    using assms(1,6,7) by (simp add: generateVideo_def polling_trace_def Let_def)
qed

section \<open>The part order of \<open>editImage\<close>\<close>

text \<open>
  C4, as stated, fails where the mask is the empty string: the source tests the mask for
  truthiness, so a mask that is not \<open>null\<close> but empty adds no mask part and leaves the
  prompt unwrapped.
\<close>

theorem editImage_empty_mask_counterexample:
  \<open>snd (editImage sample_platform always_image [] (js ''Add a hat'') [sample_image, other_image]
         (Some [])) =
     [GenerateContent
        [InlineData (Some (js ''AAAA'')) (js ''image/png''),
         InlineData (Some (js ''BBBB'')) (js ''image/jpeg''),
         TextPart (js ''Add a hat'')]]
   \<and> snd (editImage sample_platform always_image [] (js ''Add a hat'') [sample_image, other_image]
         (Some [])) \<noteq>
     [GenerateContent
        [InlineData (Some (js ''AAAA'')) (js ''image/png''),
         InlineData (Some []) (js ''image/png''),
         InlineData (Some (js ''BBBB'')) (js ''image/jpeg''),
         TextPart (js ''Apply the following instruction only to the masked area of the image: "Add a hat". Preserve the unmasked area.'')]]\<close>
  by (simp add: editImage_def editImage_parts_def Let_def inline_image_def sample_image_def
      other_image_def)

text \<open>
  C4 (amended): for every call of \<open>editImage\<close> with at least one image, the request sent
  has the parts: the primary image, the mask when the mask is neither \<open>null\<close> nor empty,
  the remaining images in their order, and the text last. With such a mask the text is the
  prompt wrapped in the fixed instruction about the masked area; with a \<open>null\<close> or empty
  mask the parts are the primary image, the remaining images and the prompt itself.
\<close>

theorem editImage_part_order:
  \<open>(maskBase64 = Some m \<and> m \<noteq> [] \<longrightarrow>
      snd (editImage pf rm sent prompt' (img # rest) maskBase64) =
        sent @ [GenerateContent
          ([inline_image img, InlineData (Some m) (js ''image/png'')] @ map inline_image rest
           @ [TextPart (js ''Apply the following instruction only to the masked area of the image: "''
                        @ prompt' @ js ''". Preserve the unmasked area.'')])])
   \<and> (maskBase64 = None \<or> maskBase64 = Some [] \<longrightarrow>
      snd (editImage pf rm sent prompt' (img # rest) maskBase64) =
        sent @ [GenerateContent ([inline_image img] @ map inline_image rest @ [TextPart prompt'])])\<close>
  by (auto simp add: editImage_def editImage_parts_def masked_prompt_def Let_def)

theorem editImage_part_order_witness:
  \<open>snd (editImage sample_platform always_image [] (js ''Add a hat'') [sample_image, other_image]
         (Some (js ''MASK''))) =
     [GenerateContent
        [InlineData (Some (js ''AAAA'')) (js ''image/png''),
         InlineData (Some (js ''MASK'')) (js ''image/png''),
         InlineData (Some (js ''BBBB'')) (js ''image/jpeg''),
         TextPart (js ''Apply the following instruction only to the masked area of the image: "Add a hat". Preserve the unmasked area.'')]]
   \<and> snd (editImage sample_platform always_image [] (js ''Add a hat'') [sample_image, other_image] None) =
     [GenerateContent
        [InlineData (Some (js ''AAAA'')) (js ''image/png''),
         InlineData (Some (js ''BBBB'')) (js ''image/jpeg''),
         TextPart (js ''Add a hat'')]]\<close>
  using editImage_part_order [of "Some (js ''MASK'')" "js ''MASK''" sample_platform always_image "[]"
          "js ''Add a hat''" sample_image "[other_image]"]
        editImage_part_order [of None "[]" sample_platform always_image "[]"
          "js ''Add a hat''" sample_image "[other_image]"]
  by (simp add: inline_image_def sample_image_def other_image_def js_def)

section \<open>The error translator\<close>




section \<open>Batches\<close>

text \<open>
  C1: evaluated where the first of the four sub-calls fails on the network and the other
  three return an image, the batch is rejected with the failed sub-call's message, and no
  image is returned; the lookbook batch does the same; and a batch whose second sub-call
  comes back without an image is rejected too. \<open>Promise.all\<close> rejects as soon as one
  sub-call rejects, and \<open>editImage\<close> rejects whenever it has no image.
\<close>

theorem batch_fails_on_one_failure:
  \<open>map snd (fst (start_edits sample_platform first_fails [] (js ''Vary it'') [sample_image] 4)) =
     [Inl (ErrorObj (js ''Failed to fetch'')),
      editImage_settle sample_platform (Inr image_response),
      editImage_settle sample_platform (Inr image_response),
      editImage_settle sample_platform (Inr image_response)]
   \<and> imageUrl (projr (editImage_settle sample_platform (Inr image_response)))
       = Some (js ''data:image/png;base64,CCCC'')
   \<and> fst (generateImageEditsBatch sample_platform first_fails [] (js ''Vary it'') [sample_image])
       = Inl (ErrorObj (js ''Failed to fetch''))
   \<and> fst (generateLookbook sample_platform first_fails [] (js ''Vary it'') sample_image 4)
       = Inl (ErrorObj (js ''Failed to fetch''))
   \<and> fst (generateImageEditsBatch sample_platform second_empty [] (js ''Vary it'') [sample_image])
       = Inl (ErrorObj msg_no_image)\<close>
  by (simp add: generateImageEditsBatch_def generateLookbook_def four_unfold editImage_def Let_def
      settle_rejected settle_image_response settle_text_response no_image_kept
      failed_fetch_kept first_fails_simps second_empty_simps Promise_all_def rethrow_def js_cat)

section \<open>The watermark pipeline\<close>

text \<open>
  C6: \<open>applyWatermarks\<close> never rejects, whatever its input and whatever its stages do.
  For every image URL (a string that is not empty, as every caller passes): if the
  invisible stage throws, or the visible stage throws, it returns the input unchanged; when
  both stages succeed it returns the image marked by both. For \<open>null\<close>, and for the empty
  string, it runs no stage and returns \<open>null\<close>.
\<close>

theorem applyWatermarks_never_fails:
  "(\<exists>r. applyWatermarks cb x = Inr r)
   \<and> (url \<noteq> [] \<longrightarrow>
        (embedWatermark cb url studio_signature = Inl e
           \<longrightarrow> applyWatermarks cb (Some url) = Inr (Some url))
      \<and> (embedWatermark cb url studio_signature = Inr invisible
           \<and> addVisibleWatermark cb invisible studio_signature = Inl e
           \<longrightarrow> applyWatermarks cb (Some url) = Inr (Some url))
      \<and> (embedWatermark cb url studio_signature = Inr invisible
           \<and> addVisibleWatermark cb invisible studio_signature = Inr visible
           \<longrightarrow> applyWatermarks cb (Some url) = Inr (Some visible)))
   \<and> applyWatermarks cb None = Inr None
   \<and> applyWatermarks cb (Some []) = Inr None"
  by (auto simp add: applyWatermarks_def split: option.splits sum.splits)

theorem applyWatermarks_never_fails_witness:
  "applyWatermarks embed_fails (Some (js ''data:image/png;base64,CCCC''))
     = Inr (Some (js ''data:image/png;base64,CCCC''))
   \<and> applyWatermarks visible_fails (Some (js ''data:image/png;base64,CCCC''))
     = Inr (Some (js ''data:image/png;base64,CCCC''))
   \<and> applyWatermarks marking (Some (js ''data:image/png;base64,CCCC''))
     = Inr (Some (js ''data:image/png;base64,CCCC+i+v''))"
  using applyWatermarks_never_fails [of embed_fails None "js ''data:image/png;base64,CCCC''"
          "ErrorObj (js ''canvas'')"]
        applyWatermarks_never_fails [of visible_fails None "js ''data:image/png;base64,CCCC''" NonError
          "js ''data:image/png;base64,CCCC+i''"]
        applyWatermarks_never_fails [of marking None "js ''data:image/png;base64,CCCC''" NonError
          "js ''data:image/png;base64,CCCC+i''" "js ''data:image/png;base64,CCCC+i+v''"]
  by (simp add: embed_fails_def visible_fails_def marking_def js_def)

section \<open>The display order\<close>

text \<open>
  C9: for a persisted list of keys \<open>ks\<close> (stored as a non-empty text that parses to the
  array of these strings) and a catalogue \<open>TS\<close>, the keys of the display order are the
  saved keys that are keys of the catalogue, in their saved order, followed by the
  catalogue's keys that are not saved, in the catalogue's order; and every entry shown is
  an entry of the catalogue.
\<close>

theorem display_order:
  "saved \<noteq> [] \<and> JSON_parse pf saved = Some (JArr (map JStr ks)) \<longrightarrow>
     map key (initial_transformations pf (Inr (Some saved)) TS)
       = filter (\<lambda>k. k \<in> key ` set TS) ks @ filter (\<lambda>k. k \<notin> set ks) (map key TS)
     \<and> set (initial_transformations pf (Inr (Some saved)) TS) \<subseteq> set TS"
  using ordered_entries [of TS "map JStr ks"]
  by (simp add: initial_transformations_def Let_def ordered_keys new_keys del: set_map)

theorem display_order_witness:
  \<open>map key (initial_transformations sample_platform (Inr (Some (js ''["B","A"]'')))
      [plain_entry\<lparr>key := js ''A''\<rparr>, plain_entry\<lparr>key := js ''B''\<rparr>, plain_entry\<lparr>key := js ''C''\<rparr>])
     = [js ''B'', js ''A'', js ''C'']
   \<and> map key (initial_transformations sample_platform (Inr (Some (js ''["B","Z","A"]'')))
      [plain_entry\<lparr>key := js ''A''\<rparr>, plain_entry\<lparr>key := js ''B''\<rparr>, plain_entry\<lparr>key := js ''C''\<rparr>])
     = [js ''B'', js ''A'', js ''C'']\<close>
  using display_order [of \<open>js ''["B","A"]''\<close> sample_platform "[js ''B'', js ''A'']"
          "[plain_entry\<lparr>key := js ''A''\<rparr>, plain_entry\<lparr>key := js ''B''\<rparr>, plain_entry\<lparr>key := js ''C''\<rparr>]"]
        display_order [of \<open>js ''["B","Z","A"]''\<close> sample_platform "[js ''B'', js ''Z'', js ''A'']"
          "[plain_entry\<lparr>key := js ''A''\<rparr>, plain_entry\<lparr>key := js ''B''\<rparr>, plain_entry\<lparr>key := js ''C''\<rparr>]"]
  by (simp add: sample_platform_def sample_parse_def plain_entry_def js_def)

section \<open>The payment-QR pipeline\<close>

text \<open>
  C2, as stated, fails for the account number: it is given to the substitution as typed,
  not normalised. Here \<open>ab12\<close> reaches the prompt as \<open>ab12\<close>, while its normalisation is
  \<open>AB12\<close>.
\<close>

theorem chibi_accountNumber_counterexample:
  "snd (handleGenerateImage sample_platform always_image marking chibi_session []) =
     [GenerateContent
        [InlineData (Some (js ''AAAA'')) (js ''image/png''),
         InlineData (Some (js ''BBBB'')) (js ''image/jpeg''),
         TextPart (js ''VCB|LE AN|ab12|HUE'')]]
   \<and> accountNumber chibi_session = js ''ab12''
   \<and> formatBankText sample_platform (js ''ab12'') = js ''AB12''
   \<and> js ''VCB|LE AN|ab12|HUE'' \<noteq> js ''VCB|LE AN|AB12|HUE''"
proof -
  have "js ''VCB|LE AN|ab12|HUE'' \<noteq> js ''VCB|LE AN|AB12|HUE''"
    by (simp add: js_def)
  then show ?thesis
    by (simp add: chibi_session_request chibi_session_fields format_samples)
qed

text \<open>
  C2 (amended): in the payment-QR pipeline, once the two images are present and the four
  fields are not blank, exactly one \<open>editImage\<close> request is sent, with exactly the two
  images and no mask. Its prompt is what four calls of \<open>String.replace\<close> make of the
  template, each on the result of the one before, for the placeholders of the bank name,
  the account name, the account number and the branch in this order. The replacement given
  to \<open>replace\<close> is the normalised field (upper case, NFD, the combining marks U+0300 to
  U+036F removed, D with stroke replaced by D) for the bank name, the account name and the
  branch, and the field as typed, not normalised, for the account number. A normalised
  value holds no combining mark and no D with stroke.
\<close>

theorem chibi_fields_normalized:
  "selectedTransformation s = Some tr \<and> key tr = js ''chibiQrCode''
   \<and> primaryImageUrl s = Some p \<and> p \<noteq> [] \<and> secondaryImageUrl s = Some q \<and> q \<noteq> []
   \<and> js_trim (bankName s) \<noteq> [] \<and> js_trim (accountName s) \<noteq> []
   \<and> js_trim (accountNumber s) \<noteq> [] \<and> js_trim (branch s) \<noteq> []
   \<longrightarrow> snd (handleGenerateImage pf rm cb s sent) =
         sent @ [GenerateContent
           [inline_image (toImagePart p), inline_image (toImagePart q),
            TextPart
              (js_replace
                 (js_replace
                    (js_replace
                       (js_replace (prompt tr) (js ''{{bankName}}'') (formatBankText pf (bankName s)))
                       (js ''{{accountName}}'') (formatBankText pf (accountName s)))
                    (js ''{{accountNumber}}'') (accountNumber s))
                 (js ''{{branch}}'') (formatBankText pf (branch s)))]]
       \<and> formatBankText pf x =
           map (\<lambda>c. if c = 0x110 then of_char CHR ''D'' else c)
             (filter (\<lambda>c. \<not> (0x300 \<le> c \<and> c \<le> 0x36F)) (normalize_NFD pf (toUpperCase pf x)))
       \<and> (\<forall>c \<in> set (formatBankText pf x). c \<noteq> 0x110 \<and> \<not> (0x300 \<le> c \<and> c \<le> 0x36F))"
proof (intro impI conjI ballI)
  assume h: "selectedTransformation s = Some tr \<and> key tr = js ''chibiQrCode''
   \<and> primaryImageUrl s = Some p \<and> p \<noteq> [] \<and> secondaryImageUrl s = Some q \<and> q \<noteq> []
   \<and> js_trim (bankName s) \<noteq> [] \<and> js_trim (accountName s) \<noteq> []
   \<and> js_trim (accountNumber s) \<noteq> [] \<and> js_trim (branch s) \<noteq> []"
  then show "snd (handleGenerateImage pf rm cb s sent) =
         sent @ [GenerateContent
           [inline_image (toImagePart p), inline_image (toImagePart q),
            TextPart
              (js_replace
                 (js_replace
                    (js_replace
                       (js_replace (prompt tr) (js ''{{bankName}}'') (formatBankText pf (bankName s)))
                       (js ''{{accountName}}'') (formatBankText pf (accountName s)))
                    (js ''{{accountNumber}}'') (accountNumber s))
                 (js ''{{branch}}'') (formatBankText pf (branch s)))]]"
    by (intro chibi_request) simp_all
  show "formatBankText pf x =
           map (\<lambda>c. if c = 0x110 then of_char CHR ''D'' else c)
             (filter (\<lambda>c. \<not> (0x300 \<le> c \<and> c \<le> 0x36F)) (normalize_NFD pf (toUpperCase pf x)))"
    by (simp add: formatBankText_def)
  fix c assume "c \<in> set (formatBankText pf x)"
  then show "c \<noteq> 0x110" "\<not> (0x300 \<le> c \<and> c \<le> 0x36F)"
    using formatBankText_ascii_marks by blast+
qed

theorem chibi_fields_normalized_witness:
  "snd (handleGenerateImage sample_platform always_image marking chibi_session []) =
     [GenerateContent
        [InlineData (Some (js ''AAAA'')) (js ''image/png''),
         InlineData (Some (js ''BBBB'')) (js ''image/jpeg''),
         TextPart (js ''VCB|LE AN|ab12|HUE'')]]
   \<and> formatBankText sample_platform (js ''le an'') = js ''LE AN''"
proof -
  let ?tr = "plain_entry\<lparr>key := js ''chibiQrCode'', isMultiImage := True,
                     prompt := js ''{{bankName}}|{{accountName}}|{{accountNumber}}|{{branch}}''\<rparr>"
  have h: "selectedTransformation chibi_session = Some ?tr \<and> key ?tr = js ''chibiQrCode''
   \<and> primaryImageUrl chibi_session = Some (js ''data:image/png;base64,AAAA'')
   \<and> js ''data:image/png;base64,AAAA'' \<noteq> []
   \<and> secondaryImageUrl chibi_session = Some (js ''data:image/jpeg;base64,BBBB'')
   \<and> js ''data:image/jpeg;base64,BBBB'' \<noteq> []
   \<and> js_trim (bankName chibi_session) \<noteq> [] \<and> js_trim (accountName chibi_session) \<noteq> []
   \<and> js_trim (accountNumber chibi_session) \<noteq> [] \<and> js_trim (branch chibi_session) \<noteq> []"
    unfolding chibi_session_fields chibi_entry_fields by (simp add: trim_samples js_eq_Nil)
  from chibi_fields_normalized [of chibi_session ?tr "js ''data:image/png;base64,AAAA''"
      "js ''data:image/jpeg;base64,BBBB''" sample_platform always_image marking "[]" "js ''le an''",
      THEN mp, OF h]
  have "snd (handleGenerateImage sample_platform always_image marking chibi_session []) =
         [] @ [GenerateContent
           [inline_image (toImagePart (js ''data:image/png;base64,AAAA'')),
            inline_image (toImagePart (js ''data:image/jpeg;base64,BBBB'')),
            TextPart
              (js_replace
                 (js_replace
                    (js_replace
                       (js_replace (prompt ?tr) (js ''{{bankName}}'')
                          (formatBankText sample_platform (bankName chibi_session)))
                       (js ''{{accountName}}'') (formatBankText sample_platform (accountName chibi_session)))
                    (js ''{{accountNumber}}'') (accountNumber chibi_session))
                 (js ''{{branch}}'') (formatBankText sample_platform (branch chibi_session)))]]"
    by (rule conjunct1)
  then show ?thesis
    unfolding chibi_entry_fields chibi_session_fields format_samples replace_samples
      toImagePart_png toImagePart_jpeg inline_image_def
    by simp
qed

section \<open>The two-step pipeline\<close>

text \<open>
  C7: in the two-step pipeline (a two-step entry, both images present), if the step-one
  call of \<open>editImage\<close> produces no image, the only request sent is the one of step one
  (the request of step two is never sent), the pipeline fails with an error shown to the
  user, and no result is stored or put in the history.
\<close>

theorem twoStep_stops_after_failed_step_one:
  "selectedTransformation s = Some tr
   \<and> key tr \<noteq> js ''outfitStylist'' \<and> key tr \<noteq> js ''chibiQrCode'' \<and> \<not> isMultiStepVideo tr
   \<and> (maxImages tr = None \<or> maxImages tr = Some 0) \<and> isTwoStep tr
   \<and> primaryImageUrl s = Some p \<and> p \<noteq> [] \<and> secondaryImageUrl s = Some q \<and> q \<noteq> []
   \<and> promptToUse = (if prompt tr = js ''CUSTOM'' then customPrompt s else prompt tr)
   \<and> \<not> (\<exists>c. fst (editImage pf rm sent promptToUse [toImagePart p] None) = Inr c
              \<and> truthy_str (imageUrl c))
   \<longrightarrow> snd (handleGenerateImage pf rm cb s sent) =
         sent @ [GenerateContent [inline_image (toImagePart p), TextPart promptToUse]]
       \<and> error (fst (handleGenerateImage pf rm cb s sent)) \<noteq> None
       \<and> generatedContent (fst (handleGenerateImage pf rm cb s sent)) = None
       \<and> history (fst (handleGenerateImage pf rm cb s sent)) = history s
       \<and> \<not> isLoading (fst (handleGenerateImage pf rm cb s sent))"
proof
  assume h: "selectedTransformation s = Some tr
   \<and> key tr \<noteq> js ''outfitStylist'' \<and> key tr \<noteq> js ''chibiQrCode'' \<and> \<not> isMultiStepVideo tr
   \<and> (maxImages tr = None \<or> maxImages tr = Some 0) \<and> isTwoStep tr
   \<and> primaryImageUrl s = Some p \<and> p \<noteq> [] \<and> secondaryImageUrl s = Some q \<and> q \<noteq> []
   \<and> promptToUse = (if prompt tr = js ''CUSTOM'' then customPrompt s else prompt tr)
   \<and> \<not> (\<exists>c. fst (editImage pf rm sent promptToUse [toImagePart p] None) = Inr c
              \<and> truthy_str (imageUrl c))"
  define u0 where "u0 = s\<lparr>isLoading := True, error := None, generatedContent := None,
              generatedLookbookImages := [], loadingMessage := []\<rparr>"
  define request where "request = GenerateContent [inline_image (toImagePart p), TextPart promptToUse]"
  from h have none: "\<And>c. editImage_settle pf (generateContent rm (length sent)
              [inline_image (toImagePart p), TextPart promptToUse]) = Inr c \<Longrightarrow> \<not> truthy_str (imageUrl c)"
    by (simp add: editImage_def editImage_parts_def Let_def)
  from h have "handleGenerateImage_try pf rm cb s tr u0 sent
      = twoStep_branch pf rm cb s tr promptToUse u0 sent"
    by (simp add: try_twoStep)
  moreover from h none obtain err where "twoStep_branch pf rm cb s tr promptToUse u0 sent =
           (Threw err, u0\<lparr>loadingMessage := t cb (js ''app.loading.step1'')\<rparr>, sent @ [request])"
    unfolding request_def using twoStep_threw [of s p q pf rm sent promptToUse cb tr u0] by blast
  ultimately have "handleGenerateImage_try pf rm cb s tr u0 sent
      = (Threw err, u0\<lparr>loadingMessage := t cb (js ''app.loading.step1'')\<rparr>, sent @ [request])"
    by simp
  with h have "handleGenerateImage pf rm cb s sent =
     (u0\<lparr>loadingMessage := t cb (js ''app.loading.step1''),
         error := Some (case err of ErrorObj m \<Rightarrow> m | NonError \<Rightarrow> t cb (js ''app.error.unknown'')),
        isLoading := False, loadingMessage := []\<rparr>, sent @ [request])"
    unfolding u0_def by (simp add: handleGenerateImage_threw)
  then show "snd (handleGenerateImage pf rm cb s sent) =
         sent @ [GenerateContent [inline_image (toImagePart p), TextPart promptToUse]]
       \<and> error (fst (handleGenerateImage pf rm cb s sent)) \<noteq> None
       \<and> generatedContent (fst (handleGenerateImage pf rm cb s sent)) = None
       \<and> history (fst (handleGenerateImage pf rm cb s sent)) = history s
       \<and> \<not> isLoading (fst (handleGenerateImage pf rm cb s sent))"
    by (simp add: u0_def request_def)
qed

theorem twoStep_stops_after_failed_step_one_witness:
  "snd (handleGenerateImage sample_platform never_image marking twoStep_session []) =
     [GenerateContent [InlineData (Some (js ''AAAA'')) (js ''image/png''), TextPart (js ''Draw the line art.'')]]
   \<and> length (snd (handleGenerateImage sample_platform never_image marking twoStep_session [])) = 1
   \<and> error (fst (handleGenerateImage sample_platform never_image marking twoStep_session [])) \<noteq> None
   \<and> generatedContent (fst (handleGenerateImage sample_platform never_image marking twoStep_session [])) = None"
  using twoStep_stops_after_failed_step_one [of twoStep_session
      "plain_entry\<lparr>key := js ''colorize'', prompt := js ''Draw the line art.'',
                               isMultiImage := True, isTwoStep := True,
                               stepTwoPrompt := js ''Color it with this palette.''\<rparr>"
      "js ''data:image/png;base64,AAAA''" "js ''data:image/jpeg;base64,BBBB''"
      "js ''Draw the line art.''" sample_platform never_image "[]" marking]
  by (simp add: js_eq_Nil twoStep_session_def fresh_def plain_entry_def entry_keys toImagePart_png
      editImage_def editImage_parts_def Let_def never_image_simps settle_text_response
      inline_image_def)

section \<open>Resets while a video is generated\<close>

text \<open>
  C3, as stated, fails: nothing cancels the polling. Here the user resets the session
  while the job is polled; the loop goes on to its second poll, and the video that arrives
  late becomes the current result and enters the history of the reset session, in which no
  transformation is selected and the prompt is empty.
\<close>

theorem video_reset_counterexample:
  "\<exists>u. handleGenerateVideo sample_platform done_at_second_poll (js ''KEY'') marking fetch_ok
          handleResetApp video_session = Some u
     \<and> generatedContent u =
         Some \<lparr>imageUrl = None, content_text = None, videoUrl = Some (js ''blob:video-1''),
               originalImageUrl = None, content_secondaryImageUrl = None\<rparr>
     \<and> history u =
         [\<lparr>imageUrl = None, content_text = None, videoUrl = Some (js ''blob:video-1''),
               originalImageUrl = None, content_secondaryImageUrl = None\<rparr>]
     \<and> selectedTransformation u = None \<and> customPrompt u = []"
proof -
  have f: "fetch_ok (js ''https://video.test/v.mp4?alt=media'' @ js ''&key='' @ js ''KEY'')
      = Inr \<lparr>ok = True, statusText = js ''OK'', blob_objectUrl = Inr (js ''blob:video-1'')\<rparr>"
    by (simp add: fetch_ok_def)
  have "handleGenerateVideo sample_platform done_at_second_poll (js ''KEY'') marking fetch_ok
          handleResetApp video_session =
     Some ((handleResetApp (fold notify (polling_trace (js ''A cat walking'') None (js ''16:9'')
                @ [Wait 10000, Poll, Wait 10000, Poll, ReadLink])
              (video_session\<lparr>isLoading := True, error := None, generatedContent := None\<rparr>)))
            \<lparr>loadingMessage := t marking (js ''app.loading.videoFetching''),
             generatedContent := Some \<lparr>imageUrl = None, content_text = None,
                                    videoUrl = Some (js ''blob:video-1''),
                                    originalImageUrl = primaryImageUrl video_session,
                                    content_secondaryImageUrl = None\<rparr>,
             history := \<lparr>imageUrl = None, content_text = None, videoUrl = Some (js ''blob:video-1''),
                                    originalImageUrl = primaryImageUrl video_session,
                                    content_secondaryImageUrl = None\<rparr>
                        # history (handleResetApp (fold notify
                             (polling_trace (js ''A cat walking'') None (js ''16:9'')
                                @ [Wait 10000, Poll, Wait 10000, Poll, ReadLink])
                              (video_session\<lparr>isLoading := True, error := None, generatedContent := None\<rparr>))),
             isLoading := False, loadingMessage := []\<rparr>)"
    by (rule handleGenerateVideo_applies
          [where tr = "plain_entry\<lparr>key := js ''videoGen'', isVideo := True\<rparr>"
             and url = "js ''https://video.test/v.mp4?alt=media'' @ js ''&key='' @ js ''KEY''"
             and response = "\<lparr>ok = True, statusText = js ''OK'', blob_objectUrl = Inr (js ''blob:video-1'')\<rparr>"])
       (simp_all add: video_session_fields(1) video_session_run f,
        simp add: video_session_fields trim_samples)
  then show ?thesis
    by (simp add: video_session_fields notify_history reset_fields)
qed

text \<open>
  C3 (amended): the polling loop of \<open>generateVideo\<close> takes no cancellation signal, and
  whatever handlers run while the job is polled (a session reset, going back to the
  selection), the loop is neither stopped nor made to throw: once the job has completed
  and its video is downloaded, \<open>handleGenerateVideo\<close> makes the video the current result
  and puts it in front of the history of the state as it then is, the reset state
  included.
\<close>

theorem video_result_applied_after_reset:
  "selectedTransformation s = Some tr \<and> js_trim (customPrompt s) \<noteq> []
   \<and> generateVideo pf vs apiKey (customPrompt s)
        (if truthy_str (primaryImageUrl s) then Some (toImagePart (str (primaryImageUrl s))) else None)
        (aspectRatio s) = Some (trace, Inr url)
   \<and> fetch url = Inr response \<and> ok response \<and> blob_objectUrl response = Inr objectUrl
   \<and> result = \<lparr>imageUrl = None, content_text = None, videoUrl = Some objectUrl,
                originalImageUrl = primaryImageUrl s, content_secondaryImageUrl = None\<rparr>
   \<longrightarrow> (\<exists>u. handleGenerateVideo pf vs apiKey cb fetch meanwhile s = Some u
            \<and> generatedContent u = Some result
            \<and> history u = result # history (meanwhile (fold notify trace
                  (s\<lparr>isLoading := True, error := None, generatedContent := None\<rparr>))))
     \<and> (\<exists>u. handleGenerateVideo pf vs apiKey cb fetch handleResetApp s = Some u
            \<and> generatedContent u = Some result \<and> history u = result # history s
            \<and> selectedTransformation u = None \<and> primaryImageUrl u = None \<and> customPrompt u = [])
     \<and> (\<exists>u. handleGenerateVideo pf vs apiKey cb fetch handleBackToSelection s = Some u
            \<and> generatedContent u = Some result \<and> history u = result # history s
            \<and> selectedTransformation u = None)"
proof
  assume h: "selectedTransformation s = Some tr \<and> js_trim (customPrompt s) \<noteq> []
   \<and> generateVideo pf vs apiKey (customPrompt s)
        (if truthy_str (primaryImageUrl s) then Some (toImagePart (str (primaryImageUrl s))) else None)
        (aspectRatio s) = Some (trace, Inr url)
   \<and> fetch url = Inr response \<and> ok response \<and> blob_objectUrl response = Inr objectUrl
   \<and> result = \<lparr>imageUrl = None, content_text = None, videoUrl = Some objectUrl,
                originalImageUrl = primaryImageUrl s, content_secondaryImageUrl = None\<rparr>"
  have run: "handleGenerateVideo pf vs apiKey cb fetch mw s =
     Some ((mw (fold notify trace (s\<lparr>isLoading := True, error := None, generatedContent := None\<rparr>)))
            \<lparr>loadingMessage := t cb (js ''app.loading.videoFetching''),
             generatedContent := Some result,
             history := result # history (mw (fold notify trace
                              (s\<lparr>isLoading := True, error := None, generatedContent := None\<rparr>))),
             isLoading := False, loadingMessage := []\<rparr>)" for mw
    using h handleGenerateVideo_applies [of s tr pf vs apiKey trace url fetch response objectUrl cb mw]
    by simp
  show "(\<exists>u. handleGenerateVideo pf vs apiKey cb fetch meanwhile s = Some u
            \<and> generatedContent u = Some result
            \<and> history u = result # history (meanwhile (fold notify trace
                  (s\<lparr>isLoading := True, error := None, generatedContent := None\<rparr>))))
     \<and> (\<exists>u. handleGenerateVideo pf vs apiKey cb fetch handleResetApp s = Some u
            \<and> generatedContent u = Some result \<and> history u = result # history s
            \<and> selectedTransformation u = None \<and> primaryImageUrl u = None \<and> customPrompt u = [])
     \<and> (\<exists>u. handleGenerateVideo pf vs apiKey cb fetch handleBackToSelection s = Some u
            \<and> generatedContent u = Some result \<and> history u = result # history s
            \<and> selectedTransformation u = None)"
    by (simp add: run notify_history reset_fields)
qed

theorem video_result_applied_after_reset_witness:
  "\<exists>u. handleGenerateVideo sample_platform done_at_second_poll (js ''KEY'') marking fetch_ok
          handleBackToSelection video_session = Some u
     \<and> generatedContent u =
         Some \<lparr>imageUrl = None, content_text = None, videoUrl = Some (js ''blob:video-1''),
               originalImageUrl = None, content_secondaryImageUrl = None\<rparr>
     \<and> history u =
         [\<lparr>imageUrl = None, content_text = None, videoUrl = Some (js ''blob:video-1''),
               originalImageUrl = None, content_secondaryImageUrl = None\<rparr>]
     \<and> selectedTransformation u = None"
proof -
  let ?result = "\<lparr>imageUrl = None, content_text = None, videoUrl = Some (js ''blob:video-1''),
               originalImageUrl = primaryImageUrl video_session, content_secondaryImageUrl = None\<rparr>"
  let ?response = "\<lparr>ok = True, statusText = js ''OK'', blob_objectUrl = Inr (js ''blob:video-1'')\<rparr>"
  have h: "selectedTransformation video_session
       = Some (plain_entry\<lparr>key := js ''videoGen'', isVideo := True\<rparr>)
   \<and> js_trim (customPrompt video_session) \<noteq> []
   \<and> generateVideo sample_platform done_at_second_poll (js ''KEY'') (customPrompt video_session)
        (if truthy_str (primaryImageUrl video_session)
         then Some (toImagePart (str (primaryImageUrl video_session))) else None)
        (aspectRatio video_session)
       = Some (polling_trace (js ''A cat walking'') None (js ''16:9'')
                 @ [Wait 10000, Poll, Wait 10000, Poll, ReadLink],
               Inr (js ''https://video.test/v.mp4?alt=media'' @ js ''&key='' @ js ''KEY''))
   \<and> fetch_ok (js ''https://video.test/v.mp4?alt=media'' @ js ''&key='' @ js ''KEY'') = Inr ?response
   \<and> ok ?response \<and> blob_objectUrl ?response = Inr (js ''blob:video-1'')
   \<and> ?result = \<lparr>imageUrl = None, content_text = None, videoUrl = Some (js ''blob:video-1''),
                originalImageUrl = primaryImageUrl video_session, content_secondaryImageUrl = None\<rparr>"
    by (simp add: video_session_run fetch_ok_def) (simp add: video_session_fields trim_samples)
  from video_result_applied_after_reset [where s = video_session and pf = sample_platform
      and vs = done_at_second_poll and apiKey = "js ''KEY''" and cb = marking and fetch = fetch_ok
      and result = ?result, THEN mp, OF h, THEN conjunct2, THEN conjunct2]
  show ?thesis
    by (simp add: video_session_fields)
qed

section \<open>The video job\<close>



text \<open>
  C10: for every job that is submitted, is done after some number \<open>n\<close> of polls, reports
  no error and carries a download link, \<open>generateVideo\<close> returns, after \<open>n\<close> waits and
  polls, the link followed by \<open>&key=\<close> and the API key of the process; and whenever
  \<open>generateVideo\<close> returns a string, it is the \<open>uri\<close> of the finished operation followed
  by \<open>&key=\<close> and that key.
\<close>

theorem generateVideo_returns_keyed_url:
  "(generateVideos vs \<lparr>video_prompt = p, video_aspectRatio = a, video_image = i\<rparr> = Inr op0
      \<and> (\<forall>k<n. \<exists>operation. after_polls vs op0 k = Inr operation \<and> \<not> op_done operation)
      \<and> after_polls vs op0 n = Inr final \<and> op_done final
      \<and> (\<forall>e. op_error final = Some e \<longrightarrow> \<not> truthy e)
      \<and> uri final = Some link \<and> link \<noteq> []
    \<longrightarrow> generateVideo pf vs apiKey p i a =
          Some (polling_trace p i a @ concat (replicate n [Wait 10000, Poll]) @ [ReadLink],
                Inr (link @ js ''&key='' @ apiKey)))
   \<and> (generateVideo pf vs apiKey p i a = Some (trace, Inr url) \<longrightarrow>
        (\<exists>op0 tr final link.
           generateVideos vs \<lparr>video_prompt = p, video_aspectRatio = a, video_image = i\<rparr> = Inr op0
           \<and> poll_loop vs 0 (polling_trace p i a) op0 = Some (tr, Inr final)
           \<and> uri final = Some link \<and> link \<noteq> []
           \<and> url = link @ js ''&key='' @ apiKey))"
  using generateVideo_completes [of vs p a i op0 n final link pf apiKey]
    generateVideo_success_shape [of pf vs apiKey p i a trace url]
  by blast

theorem generateVideo_returns_keyed_url_witness:
  "generateVideo sample_platform done_at_second_poll (js ''SECRET'') (js ''A cat walking'')
     (Some sample_image) (js ''9:16'') =
   Some ([Progress (js ''Initializing video generation...''),
          Submit \<lparr>video_prompt = js ''A cat walking'', video_aspectRatio = js ''9:16'',
                  video_image = Some sample_image\<rparr>,
          Progress (js ''Polling for results, this may take a few minutes...''),
          Wait 10000, Poll, Wait 10000, Poll, ReadLink],
         Inr (js ''https://video.test/v.mp4?alt=media&key=SECRET''))"
proof -
  let ?req = "\<lparr>video_prompt = js ''A cat walking'', video_aspectRatio = js ''9:16'',
                  video_image = Some sample_image\<rparr>"
  have polls: "after_polls done_at_second_poll pending 0 = Inr pending"
    "after_polls done_at_second_poll pending (Suc 0) = Inr pending"
    "after_polls done_at_second_poll pending (Suc (Suc 0)) = Inr finished"
    by (simp_all add: done_at_second_poll_def)
  have h: "generateVideos done_at_second_poll ?req = Inr pending
      \<and> (\<forall>k<Suc (Suc 0). \<exists>operation. after_polls done_at_second_poll pending k = Inr operation
                                       \<and> \<not> op_done operation)
      \<and> after_polls done_at_second_poll pending (Suc (Suc 0)) = Inr finished \<and> op_done finished
      \<and> (\<forall>e. op_error finished = Some e \<longrightarrow> \<not> truthy e)
      \<and> uri finished = Some (js ''https://video.test/v.mp4?alt=media'')
      \<and> js ''https://video.test/v.mp4?alt=media'' \<noteq> []"
    unfolding polls
    by (simp add: less_Suc_eq polls js_eq_Nil) (simp add: done_at_second_poll_def pending_def finished_def)
  from generateVideo_returns_keyed_url [where vs = done_at_second_poll and p = "js ''A cat walking''"
      and a = "js ''9:16''" and i = "Some sample_image" and ?op0.0 = pending and n = "Suc (Suc 0)"
      and final = finished and link = "js ''https://video.test/v.mp4?alt=media''"
      and pf = sample_platform and apiKey = "js ''SECRET''", THEN conjunct1, THEN mp, OF h]
  show ?thesis
    by (simp add: polling_trace_def js_cat)
qed

end
